theory Spec2Isabelle
  imports Complex_Main
begin

section \<open>Dense arrays\<close>

text \<open>
  The linearised UVLM module (\<^verbatim>\<open>sharpy/linear/src/linuvlm.py\<close>) works on numpy arrays of
  floating-point numbers. Here an array is its shape together with its entries, and the
  entries are exact real or complex numbers: rounding is not part of the model, so a law
  the source checks up to a tolerance is stated here as an equality. A one-dimensional
  array is a \<open>vec\<close>, a two-dimensional one (dense or sparse, the values are the same) a
  \<open>mat\<close>. The operations agree with numpy on operands whose shapes fit; numpy's
  \<^verbatim>\<open>ValueError\<close> on shapes that do not fit is not modelled. Two things are kept apart from
  this: whether the model stores its matrices sparse is the flag \<open>use_sparse\<close>, which
  \<^verbatim>\<open>balfreq\<close> depends on, and the entries that a division by a zero singular value makes
  infinite or NaN in \<^verbatim>\<open>balfreq\<close> are the values \<open>NonFinite\<close> of the type \<open>flt\<close>.
\<close>

datatype 'a vec = Vec (vlen: nat) (vat: "nat \<Rightarrow> 'a")

datatype 'a mat = Mat (nrows: nat) (ncols: nat) (elem: "nat \<Rightarrow> nat \<Rightarrow> 'a")

definition sum_upto :: "nat \<Rightarrow> (nat \<Rightarrow> 'a::comm_monoid_add) \<Rightarrow> 'a" where
  "sum_upto n f = sum_list (map f [0..<n])"

definition zeros :: "nat \<Rightarrow> nat \<Rightarrow> 'a::zero mat" where
  "zeros m n = Mat m n (\<lambda>i j. 0)"

definition eye :: "nat \<Rightarrow> 'a::zero_neq_one mat" where
  "eye n = Mat n n (\<lambda>i j. if i = j then 1 else 0)"

text \<open>\<^verbatim>\<open>np.dot(a, b)\<close>, \<^verbatim>\<open>a.dot(b)\<close> and \<^verbatim>\<open>libsp.dot(a, b)\<close> on two matrices, and on a matrix
  and a vector.\<close>

definition dot :: "'a::comm_ring_1 mat \<Rightarrow> 'a mat \<Rightarrow> 'a mat" where
  "dot a b = Mat (nrows a) (ncols b) (\<lambda>i j. sum_upto (ncols a) (\<lambda>k. elem a i k * elem b k j))"

definition dotv :: "'a::comm_ring_1 mat \<Rightarrow> 'a vec \<Rightarrow> 'a vec" where
  "dotv a x = Vec (nrows a) (\<lambda>i. sum_upto (ncols a) (\<lambda>k. elem a i k * vat x k))"

definition madd :: "'a::plus mat \<Rightarrow> 'a mat \<Rightarrow> 'a mat" where
  "madd a b = Mat (nrows a) (ncols a) (\<lambda>i j. elem a i j + elem b i j)"

definition msub :: "'a::minus mat \<Rightarrow> 'a mat \<Rightarrow> 'a mat" where
  "msub a b = Mat (nrows a) (ncols a) (\<lambda>i j. elem a i j - elem b i j)"

definition mneg :: "'a::uminus mat \<Rightarrow> 'a mat" where
  "mneg a = Mat (nrows a) (ncols a) (\<lambda>i j. - elem a i j)"

definition smul :: "'a::times \<Rightarrow> 'a mat \<Rightarrow> 'a mat" where
  "smul c a = Mat (nrows a) (ncols a) (\<lambda>i j. c * elem a i j)"

definition sdiv :: "'a::inverse mat \<Rightarrow> 'a \<Rightarrow> 'a mat" where
  "sdiv a c = Mat (nrows a) (ncols a) (\<lambda>i j. elem a i j / c)"

definition vadd :: "'a::plus vec \<Rightarrow> 'a vec \<Rightarrow> 'a vec" where
  "vadd x y = Vec (vlen x) (\<lambda>i. vat x i + vat y i)"

definition vsub :: "'a::minus vec \<Rightarrow> 'a vec \<Rightarrow> 'a vec" where
  "vsub x y = Vec (vlen x) (\<lambda>i. vat x i - vat y i)"

text \<open>\<^verbatim>\<open>a.T\<close>, \<^verbatim>\<open>a.conj()\<close>, \<^verbatim>\<open>a.real\<close>, \<^verbatim>\<open>a.imag\<close>, and the implicit conversion of a real
  array that meets a complex one.\<close>

definition transpose_mat :: "'a mat \<Rightarrow> 'a mat" where
  "transpose_mat a = Mat (ncols a) (nrows a) (\<lambda>i j. elem a j i)"

definition conj_mat :: "complex mat \<Rightarrow> complex mat" where
  "conj_mat a = Mat (nrows a) (ncols a) (\<lambda>i j. cnj (elem a i j))"

definition real_mat :: "complex mat \<Rightarrow> real mat" where
  "real_mat a = Mat (nrows a) (ncols a) (\<lambda>i j. Re (elem a i j))"

definition imag_mat :: "complex mat \<Rightarrow> real mat" where
  "imag_mat a = Mat (nrows a) (ncols a) (\<lambda>i j. Im (elem a i j))"

definition cplx :: "real mat \<Rightarrow> complex mat" where
  "cplx a = Mat (nrows a) (ncols a) (\<lambda>i j. complex_of_real (elem a i j))"

text \<open>Slices. \<open>block a r0 r1 c0 c1\<close> reads \<^verbatim>\<open>a[r0:r1, c0:c1]\<close>; \<open>set_block a r0 r1 c0 c1 x\<close> is
  the array after \<^verbatim>\<open>a[r0:r1, c0:c1] = x\<close>. With index vectors that are ranges, as everywhere
  in the source, \<^verbatim>\<open>a[range(r0,r1), c0:c1]\<close> is the same block; two index vectors of equal
  length, \<^verbatim>\<open>a[range(r0,r0+n), range(c0,c0+n)]\<close>, select the \<open>n\<close> entries of a diagonal.\<close>

definition block :: "'a mat \<Rightarrow> nat \<Rightarrow> nat \<Rightarrow> nat \<Rightarrow> nat \<Rightarrow> 'a mat" where
  "block a r0 r1 c0 c1 = Mat (r1 - r0) (c1 - c0) (\<lambda>i j. elem a (r0 + i) (c0 + j))"

definition set_block :: "'a mat \<Rightarrow> nat \<Rightarrow> nat \<Rightarrow> nat \<Rightarrow> nat \<Rightarrow> 'a mat \<Rightarrow> 'a mat" where
  "set_block a r0 r1 c0 c1 x =
     Mat (nrows a) (ncols a)
       (\<lambda>i j. if r0 \<le> i \<and> i < r1 \<and> c0 \<le> j \<and> j < c1 then elem x (i - r0) (j - c0)
               else elem a i j)"

definition add_diag :: "'a::plus mat \<Rightarrow> nat \<Rightarrow> nat \<Rightarrow> nat \<Rightarrow> 'a \<Rightarrow> 'a mat" where
  "add_diag a r0 c0 n v =
     Mat (nrows a) (ncols a)
       (\<lambda>i j. if r0 \<le> i \<and> i < r0 + n \<and> c0 \<le> j \<and> j - c0 = i - r0 then elem a i j + v
               else elem a i j)"

definition set_diag :: "'a mat \<Rightarrow> nat \<Rightarrow> nat \<Rightarrow> nat \<Rightarrow> 'a \<Rightarrow> 'a mat" where
  "set_diag a r0 c0 n v =
     Mat (nrows a) (ncols a)
       (\<lambda>i j. if r0 \<le> i \<and> i < r0 + n \<and> c0 \<le> j \<and> j - c0 = i - r0 then v
               else elem a i j)"

text \<open>\<^verbatim>\<open>a[:, c0:c1] *= f\<close> and \<^verbatim>\<open>a[:, c0:c1] /= f\<close>.\<close>

definition imul_cols :: "'a::times mat \<Rightarrow> nat \<Rightarrow> nat \<Rightarrow> 'a \<Rightarrow> 'a mat" where
  "imul_cols a c0 c1 f =
     Mat (nrows a) (ncols a) (\<lambda>i j. if c0 \<le> j \<and> j < c1 then elem a i j * f else elem a i j)"

definition idiv_cols :: "'a::inverse mat \<Rightarrow> nat \<Rightarrow> nat \<Rightarrow> 'a \<Rightarrow> 'a mat" where
  "idiv_cols a c0 c1 f =
     Mat (nrows a) (ncols a) (\<lambda>i j. if c0 \<le> j \<and> j < c1 then elem a i j / f else elem a i j)"

text \<open>\<^verbatim>\<open>a * v\<close> for a matrix and a one-dimensional array: broadcasting multiplies column
  \<open>j\<close> by \<open>v[j]\<close>.\<close>

definition mul_cols :: "'a::times mat \<Rightarrow> 'a vec \<Rightarrow> 'a mat" where
  "mul_cols a v = Mat (nrows a) (ncols a) (\<lambda>i j. elem a i j * vat v j)"

text \<open>\<^verbatim>\<open>np.block([a, b])\<close> (side by side) and \<^verbatim>\<open>np.vstack([a, b])\<close> (one above the other).\<close>

definition hstack :: "'a mat \<Rightarrow> 'a mat \<Rightarrow> 'a mat" where
  "hstack a b =
     Mat (nrows a) (ncols a + ncols b)
       (\<lambda>i j. if j < ncols a then elem a i j else elem b i (j - ncols a))"

definition vstack :: "'a mat \<Rightarrow> 'a mat \<Rightarrow> 'a mat" where
  "vstack a b =
     Mat (nrows a + nrows b) (ncols a)
       (\<lambda>i j. if i < nrows a then elem a i j else elem b (i - nrows a) j)"

section \<open>The state-space container and the errors\<close>

datatype error =
    NameError string
  | AttributeError
  | ZeroDivisionError
  | ValueError
  | IndexError
  | LinAlgError
  | TypeError

text \<open>Modelled from the spec: the class \<^verbatim>\<open>libss.ss\<close> is not among the sources. It is the
  State-Space Model of the data model: the matrices A, B, C, D and the time step, with the
  numbers of states, inputs and outputs read off the shapes.\<close>

record ss =
  ss_A :: "real mat"
  ss_B :: "real mat"
  ss_C :: "real mat"
  ss_D :: "real mat"
  ss_dt :: real

definition states :: "ss \<Rightarrow> nat" where
  "states s = nrows (ss_B s)"

definition inputs :: "ss \<Rightarrow> nat" where
  "inputs s = ncols (ss_B s)"

definition outputs :: "ss \<Rightarrow> nat" where
  "outputs s = nrows (ss_C s)"

text \<open>Modelled from the spec: \<^verbatim>\<open>libss.SSconv\<close> is not among the sources. Called as
  \<^verbatim>\<open>SSconv(Ass, None, Bss, Css, Dss, Bm1=None)\<close> it applies the state substitution
  \<open>h = x - B u\<close>, which by the documentation of \<^verbatim>\<open>assemble_ss\<close> gives
  \<open>h[n+1] = A h[n] + A B u[n]\<close> and \<open>y[n] = C h[n] + (C B + D) u[n]\<close>: A and C are kept, and
  the modified B and D are \<open>A B\<close> and \<open>C B + D\<close>.\<close>

definition SSconv ::
  "real mat \<Rightarrow> real mat \<Rightarrow> real mat \<Rightarrow> real mat \<Rightarrow> real mat \<times> real mat \<times> real mat \<times> real mat"
where
  "SSconv a b1 c d = (a, dot a b1, c, madd (dot c b1) d)"

section \<open>Floats that are not finite\<close>

text \<open>Arithmetic is exact here, except where numpy leaves the real numbers: the power
  \<^verbatim>\<open>s**(-0.5)\<close> of an array is an infinity at a zero entry and NaN at a negative one (numpy
  warns and goes on), and every sum or product with an infinity or a NaN is again an
  infinity or a NaN. An entry of an array that went through such a power is therefore a
  real number or \<open>NonFinite\<close>, which stands for the two infinities and NaN and absorbs
  sums and products (whether the array is real or complex with a vanishing imaginary
  part).\<close>

datatype flt = Finite real | NonFinite

fun fl_add :: "flt \<Rightarrow> flt \<Rightarrow> flt" where
  "fl_add (Finite a) (Finite b) = Finite (a + b)"
| "fl_add (Finite a) NonFinite = NonFinite"
| "fl_add NonFinite y = NonFinite"

fun fl_mul :: "flt \<Rightarrow> flt \<Rightarrow> flt" where
  "fl_mul (Finite a) (Finite b) = Finite (a * b)"
| "fl_mul (Finite a) NonFinite = NonFinite"
| "fl_mul NonFinite y = NonFinite"

text \<open>\<^verbatim>\<open>x**(-0.5)\<close> on a float.\<close>

definition fl_rsqrt :: "real \<Rightarrow> flt" where
  "fl_rsqrt x = (if 0 < x then Finite (x powr (- 0.5)) else NonFinite)"

definition fl_sum :: "nat \<Rightarrow> (nat \<Rightarrow> flt) \<Rightarrow> flt" where
  "fl_sum n f = foldr (\<lambda>k acc. fl_add (f k) acc) [0..<n] (Finite 0)"

definition fl_mat :: "real mat \<Rightarrow> flt mat" where
  "fl_mat a = Mat (nrows a) (ncols a) (\<lambda>i j. Finite (elem a i j))"

text \<open>\<^verbatim>\<open>np.dot(a, b)\<close> and \<^verbatim>\<open>a * v\<close> (a vector along the columns) on such arrays.\<close>

definition fl_dot :: "flt mat \<Rightarrow> flt mat \<Rightarrow> flt mat" where
  "fl_dot a b = Mat (nrows a) (ncols b)
     (\<lambda>i j. fl_sum (ncols a) (\<lambda>k. fl_mul (elem a i k) (elem b k j)))"

definition fl_mul_cols :: "flt mat \<Rightarrow> flt vec \<Rightarrow> flt mat" where
  "fl_mul_cols a v = Mat (nrows a) (ncols a) (\<lambda>i j. fl_mul (elem a i j) (vat v j))"

text \<open>Modelled from the spec: the balanced model that \<^verbatim>\<open>balfreq\<close> stores is again a
  \<^verbatim>\<open>libss.ss\<close>. Its A, B and C come out of the projection and may hold entries that are not
  finite; its D and its time step are those of the full model.\<close>

record ssb =
  ssb_A :: "flt mat"
  ssb_B :: "flt mat"
  ssb_C :: "flt mat"
  ssb_D :: "real mat"
  ssb_dt :: real

section \<open>The Dynamic class\<close>

text \<open>The sizes of the lattice, as \<^verbatim>\<open>multisurfaces.MultiAeroGridSurfaces\<close> (an external
  collaborator) exposes them: per surface the bound grid \<open>(M, N)\<close>, the wake grid
  \<open>(M_star, N)\<close>, and the counts of bound panels, wake panels and bound vertices.\<close>

record MultiAeroGridSurfaces =
  n_surf :: nat
  dimensions :: "(nat \<times> nat) list"
  dimensions_star :: "(nat \<times> nat) list"
  KK :: "nat list"
  KK_star :: "nat list"
  KKzeta :: "nat list"

record ScalingFacts =
  sf_length :: real
  sf_speed :: real
  sf_density :: real
  sf_time :: real
  sf_circulation :: real
  sf_dyn_pressure :: real
  sf_force :: real

record Dynamic =
  MS :: MultiAeroGridSurfaces
  K :: nat
  K_star :: nat
  Kzeta :: nat
  dt :: real
  integr_order :: int
  Nx :: nat
  Nu :: nat
  Ny :: nat
  remove_predictor :: bool
  B_predictor :: "real mat option"
  include_added_mass :: bool
  use_sparse :: bool
  scaling :: ScalingFacts
  SS :: "ss option"
  Zc :: "real mat option"
  Zo :: "real mat option"
  SSb :: "ssb option"
  T :: "flt mat option"
  gv :: "real vec option"

text \<open>\<^verbatim>\<open>Dynamic.__init__\<close>, after \<^verbatim>\<open>Static.__init__\<close> has summed the panel counts. The
  scaling dictionary is \<open>None\<close> or the triple (length, speed, density); its entries are
  Python floats, so the division by a zero speed raises. The attributes an assembly or a
  reduction adds later (\<open>SS\<close>, \<open>Zc\<close>, \<open>Zo\<close>, \<open>SSb\<close>, \<open>T\<close>, \<open>gv\<close>) do not exist yet: \<open>None\<close>.\<close>

definition Dynamic_init ::
  "MultiAeroGridSurfaces \<Rightarrow> real \<Rightarrow> int \<Rightarrow> bool \<Rightarrow> (real \<times> real \<times> real) option \<Rightarrow> bool
     \<Rightarrow> error + Dynamic"
where
  "Dynamic_init ms dt0 order RemovePredictor ScalingDict UseSparse =
     (let k = sum_list (KK ms); k_star = sum_list (KK_star ms); kzeta = sum_list (KKzeta ms) in
      if order \<noteq> 1 \<and> order \<noteq> 2
      then Inl (NameError ''Only integration orders 1 and 2 are supported'')
      else
        let nx = (if order = 1 then 2 * k + k_star else 3 * k + k_star);
            ny = 3 * kzeta;
            nu = 3 * ny;
            (l, u, rho) = (case ScalingDict of None \<Rightarrow> (1, 1, 1) | Some d \<Rightarrow> d)
        in
          if u = 0 then Inl ZeroDivisionError
          else
            let q = 0.5 * rho * u ^ 2 in
            Inr \<lparr> MS = ms, K = k, K_star = k_star, Kzeta = kzeta, dt = dt0,
                  integr_order = order, Nx = nx, Nu = nu, Ny = ny,
                  remove_predictor = RemovePredictor, B_predictor = None,
                  include_added_mass = True, use_sparse = UseSparse,
                  scaling = \<lparr> sf_length = l, sf_speed = u, sf_density = rho,
                              sf_time = l / u, sf_circulation = u * l,
                              sf_dyn_pressure = q, sf_force = q * l ^ 2 \<rparr>,
                  SS = None, Zc = None, Zo = None, SSb = None, T = None, gv = None \<rparr>)"

text \<open>What \<^verbatim>\<open>assemble_ss\<close> obtains from the external assembly and interpolation modules,
  already put together over the surfaces (\<^verbatim>\<open>np.block\<close>, \<^verbatim>\<open>block_diag\<close>), under the names of
  its local variables: the influence coefficients \<open>A0\<close>, \<open>A0W\<close>, the wake propagation
  \<open>Cgamma\<close>, \<open>CgammaW\<close>, the sensitivities of the normal velocity \<open>Ducdzeta\<close> and \<open>Wnv0\<close>, and
  the force sensitivities.\<close>

record uvlm_blocks =
  A0 :: "real mat"
  A0W :: "real mat"
  Cgamma :: "real mat"
  CgammaW :: "real mat"
  Ducdzeta :: "real mat"
  Wnv0 :: "real mat"
  Dfqsdgamma :: "real mat"
  Dfqsdgamma_star :: "real mat"
  Dfunstdgamma_dot :: "real mat"
  Dfqsdzeta_vrel0 :: "real mat"
  Dfqsdvind_zeta :: "real mat"
  Dfqsduinput :: "real mat"

text \<open>The state matrix of \<^verbatim>\<open>assemble_ss\<close>. \<open>lu_solve a x\<close> stands for scipy's
  \<^verbatim>\<open>lu_solve(lu_factor(a), x)\<close>.\<close>

definition assemble_A ::
  "(real mat \<Rightarrow> real mat \<Rightarrow> real mat) \<Rightarrow> uvlm_blocks \<Rightarrow> Dynamic \<Rightarrow> real mat"
where
  "assemble_A lu_solve bl self =
     (let k = K self; ks = K_star self; nx = Nx self;
          b0 = - 2; bm1 = 0.5; bp1 = 1.5;
          AinvAW = lu_solve (A0 bl) (A0W bl);
          AinvAWCgamma = mneg (dot AinvAW (Cgamma bl));
          AinvAWCgammaW = mneg (dot AinvAW (CgammaW bl));
          Ass = zeros nx nx;
          Ass = set_block Ass 0 k 0 k AinvAWCgamma;
          Ass = set_block Ass 0 k k (k + ks) AinvAWCgammaW;
          Ass = set_block Ass k (k + ks) 0 k (Cgamma bl);
          Ass = set_block Ass k (k + ks) k (k + ks) (CgammaW bl);
          Ass = (if integr_order self = 1 then
                   let Ass = set_block Ass (k + ks) (2 * k + ks) 0 k AinvAWCgamma;
                       Ass = add_diag Ass (k + ks) 0 k (- 1)
                   in set_block Ass (k + ks) (2 * k + ks) k (k + ks) AinvAWCgammaW
                 else Ass)
      in if integr_order self = 2 then
           let Ass = set_block Ass (k + ks) (2 * k + ks) 0 k (smul bp1 AinvAWCgamma);
               Ass = add_diag Ass (k + ks) 0 k b0;
               Ass = set_block Ass (k + ks) (2 * k + ks) k (k + ks) (smul bp1 AinvAWCgammaW);
               Ass = set_diag Ass (k + ks) (2 * k + ks) k bm1
           in set_diag Ass (2 * k + ks) 0 k 1
         else Ass)"

definition assemble_B ::
  "(real mat \<Rightarrow> real mat \<Rightarrow> real mat) \<Rightarrow> uvlm_blocks \<Rightarrow> Dynamic \<Rightarrow> real mat"
where
  "assemble_B lu_solve bl self =
     (let k = K self; ks = K_star self; nx = Nx self; nu = Nu self;
          bp1 = 1.5;
          AinvWnv0 = lu_solve (A0 bl) (Wnv0 bl);
          Bss = zeros nx nu;
          Bup = hstack (mneg (lu_solve (A0 bl) (Ducdzeta bl))) (hstack AinvWnv0 (mneg AinvWnv0));
          Bss = set_block Bss 0 k 0 nu Bup;
          Bss = (if integr_order self = 1
                 then set_block Bss (k + ks) (2 * k + ks) 0 nu Bup else Bss)
      in if integr_order self = 2
         then set_block Bss (k + ks) (2 * k + ks) 0 nu (smul bp1 Bup) else Bss)"

definition assemble_C :: "uvlm_blocks \<Rightarrow> Dynamic \<Rightarrow> real mat" where
  "assemble_C bl self =
     (let k = K self; ks = K_star self; nx = Nx self; ny = Ny self;
          Css = zeros ny nx;
          Css = set_block Css 0 ny 0 k (Dfqsdgamma bl);
          Css = set_block Css 0 ny k (k + ks) (Dfqsdgamma_star bl)
      in if include_added_mass self
         then set_block Css 0 ny (k + ks) (2 * k + ks) (sdiv (Dfunstdgamma_dot bl) (dt self))
         else Css)"

definition assemble_D :: "uvlm_blocks \<Rightarrow> Dynamic \<Rightarrow> real mat" where
  "assemble_D bl self =
     (let kz = Kzeta self; nu = Nu self; ny = Ny self;
          Dss = zeros ny nu;
          Dss = set_block Dss 0 ny 0 (3 * kz) (Dfqsdzeta_vrel0 bl);
          Dss = set_block Dss 0 ny 0 (3 * kz)
                  (madd (block Dss 0 ny 0 (3 * kz)) (Dfqsdvind_zeta bl));
          Dss = set_block Dss 0 ny (6 * kz) (9 * kz) (Dfqsduinput bl)
      in if include_added_mass self
         then set_block Dss 0 ny (3 * kz) (6 * kz) (mneg (block Dss 0 ny (6 * kz) (9 * kz)))
         else Dss)"

text \<open>\<^verbatim>\<open>Dynamic.assemble_ss\<close>: the four matrices, then the predictor is removed when the
  model asks for it, and the original B is kept in \<open>B_predictor\<close>.\<close>

definition assemble_ss ::
  "(real mat \<Rightarrow> real mat \<Rightarrow> real mat) \<Rightarrow> uvlm_blocks \<Rightarrow> Dynamic \<Rightarrow> Dynamic"
where
  "assemble_ss lu_solve bl self =
     (let Ass = assemble_A lu_solve bl self;
          Bss = assemble_B lu_solve bl self;
          Css = assemble_C bl self;
          Dss = assemble_D bl self
      in if remove_predictor self then
           (case SSconv Ass Bss Css Dss of
              (Ass, Bmod, Css, Dmod) \<Rightarrow>
                self \<lparr> SS := Some \<lparr> ss_A = Ass, ss_B = Bmod, ss_C = Css, ss_D = Dmod,
                                    ss_dt = dt self \<rparr>,
                       B_predictor := Some Bss \<rparr>)
         else self \<lparr> SS := Some \<lparr> ss_A = Ass, ss_B = Bss, ss_C = Css, ss_D = Dss,
                                  ss_dt = dt self \<rparr> \<rparr>)"

text \<open>\<^verbatim>\<open>Dynamic.nondimss\<close> and \<^verbatim>\<open>Dynamic.dimss\<close> change the model in place, statement by
  statement; an exception leaves what the earlier statements did. The result is the
  exception (if any) and the model afterwards. The factors are quotients of Python
  floats, so a zero divisor raises.\<close>

definition nondimss :: "Dynamic \<Rightarrow> error option \<times> Dynamic" where
  "nondimss self =
     (case SS self of
        None \<Rightarrow> (Some AttributeError, self)
      | Some s \<Rightarrow>
          let sf = scaling self; kz = Kzeta self in
          if sf_circulation sf = 0 then (Some ZeroDivisionError, self)
          else
            let s = s \<lparr> ss_B := imul_cols (ss_B s) 0 (3 * kz) (sf_length sf / sf_circulation sf) \<rparr>;
                s = s \<lparr> ss_B := imul_cols (ss_B s) (3 * kz) (ncols (ss_B s))
                                  (sf_speed sf / sf_circulation sf) \<rparr>
            in if sf_force sf = 0 then (Some ZeroDivisionError, self \<lparr> SS := Some s \<rparr>)
               else
                 let s = s \<lparr> ss_C := smul (sf_circulation sf / sf_force sf) (ss_C s) \<rparr>;
                     s = s \<lparr> ss_D := imul_cols (ss_D s) 0 (3 * kz) (sf_length sf / sf_force sf) \<rparr>;
                     s = s \<lparr> ss_D := imul_cols (ss_D s) (3 * kz) (ncols (ss_D s))
                                       (sf_speed sf / sf_force sf) \<rparr>
                 in if sf_time sf = 0 then (Some ZeroDivisionError, self \<lparr> SS := Some s \<rparr>)
                    else (None, self \<lparr> SS := Some (s \<lparr> ss_dt := ss_dt s / sf_time sf \<rparr>) \<rparr>))"

definition dimss :: "Dynamic \<Rightarrow> error option \<times> Dynamic" where
  "dimss self =
     (case SS self of
        None \<Rightarrow> (Some AttributeError, self)
      | Some s \<Rightarrow>
          let sf = scaling self; kz = Kzeta self in
          if sf_circulation sf = 0 then (Some ZeroDivisionError, self)
          else
            let s = s \<lparr> ss_B := idiv_cols (ss_B s) 0 (3 * kz) (sf_length sf / sf_circulation sf) \<rparr>;
                s = s \<lparr> ss_B := idiv_cols (ss_B s) (3 * kz) (ncols (ss_B s))
                                  (sf_speed sf / sf_circulation sf) \<rparr>
            in if sf_force sf = 0 then (Some ZeroDivisionError, self \<lparr> SS := Some s \<rparr>)
               else
                 let s = s \<lparr> ss_C := sdiv (ss_C s) (sf_circulation sf / sf_force sf) \<rparr>;
                     s = s \<lparr> ss_D := idiv_cols (ss_D s) 0 (3 * kz) (sf_length sf / sf_force sf) \<rparr>;
                     s = s \<lparr> ss_D := idiv_cols (ss_D s) (3 * kz) (ncols (ss_D s))
                                       (sf_speed sf / sf_force sf) \<rparr>
                 in (None, self \<lparr> SS := Some (s \<lparr> ss_dt := ss_dt s * sf_time sf \<rparr>) \<rparr>))"

text \<open>\<^verbatim>\<open>Dynamic.solve_step\<close>. The next input is optional; the result is the pair of the
  next state and the next output.\<close>

definition solve_step ::
  "Dynamic \<Rightarrow> real vec \<Rightarrow> real vec \<Rightarrow> real vec option \<Rightarrow> bool \<Rightarrow> error + (real vec \<times> real vec)"
where
  "solve_step self x_n u_n u_n1_opt transform_state =
     (let u_n1 = (case u_n1_opt of None \<Rightarrow> u_n | Some u \<Rightarrow> u) in
      if remove_predictor self then
        (if transform_state \<and> B_predictor self = None then Inl AttributeError
         else
           (case SS self of
              None \<Rightarrow> Inl AttributeError
            | Some s \<Rightarrow>
                let h_n = (if transform_state
                           then vsub x_n (dotv (the (B_predictor self)) u_n) else x_n);
                    h_n1 = vadd (dotv (ss_A s) h_n) (dotv (ss_B s) u_n);
                    y_n1 = vadd (dotv (ss_C s) h_n1) (dotv (ss_D s) u_n1);
                    x_n1 = (if transform_state
                            then vadd h_n1 (dotv (the (B_predictor self)) u_n1) else h_n1)
                in Inr (x_n1, y_n1)))
      else
        (case SS self of
           None \<Rightarrow> Inl AttributeError
         | Some s \<Rightarrow>
             let x_n1 = vadd (dotv (ss_A s) x_n) (dotv (ss_B s) u_n1);
                 y_n1 = vadd (dotv (ss_C s) x_n1) (dotv (ss_D s) u_n1)
             in Inr (x_n1, y_n1)))"

text \<open>Driving a time-stepper with an input sequence \<open>u0, u1, ..., un\<close>: step \<open>k\<close> is
  \<^verbatim>\<open>solve_step(x, u[k], u[k+1])\<close>, and the outputs \<open>y1, ..., yn\<close> are collected.\<close>

fun simulate :: "Dynamic \<Rightarrow> bool \<Rightarrow> real vec \<Rightarrow> real vec list \<Rightarrow> error + real vec list" where
  "simulate self ts x (u0 # u1 # us) =
     (case solve_step self x u0 (Some u1) ts of
        Inl e \<Rightarrow> Inl e
      | Inr (x1, y1) \<Rightarrow>
          (case simulate self ts x1 (u1 # us) of
             Inl e \<Rightarrow> Inl e
           | Inr ys \<Rightarrow> Inr (y1 # ys)))"
| "simulate self ts x us = Inr []"

section \<open>The wake at a frequency\<close>

text \<open>\<^verbatim>\<open>range(a, b)\<close> on Python integers.\<close>

definition py_range :: "int \<Rightarrow> int \<Rightarrow> int list" where
  "py_range a b = [a..b - 1]"

text \<open>\<^verbatim>\<open>libsp.csc_matrix((valvec, (iivec, jjvec)), shape=(m, n))\<close>: the matrix of the
  coordinate triplets. Values at the same position add up; an index outside the shape, or
  index and value lists of different lengths, raise.\<close>

definition csc_matrix ::
  "complex list \<Rightarrow> int list \<Rightarrow> int list \<Rightarrow> nat \<Rightarrow> nat \<Rightarrow> error + complex mat"
where
  "csc_matrix valvec iivec jjvec m n =
     (if length iivec \<noteq> length valvec \<or> length jjvec \<noteq> length valvec then Inl ValueError
      else if list_ex (\<lambda>i. i < 0 \<or> int m \<le> i) iivec \<or> list_ex (\<lambda>j. j < 0 \<or> int n \<le> j) jjvec
      then Inl ValueError
      else Inr (Mat m n (\<lambda>i j.
             sum_list (map (\<lambda>(i', j', v). if i' = int i \<and> j' = int j then v else 0)
                          (zip iivec (zip jjvec valvec))))))"

text \<open>The inner loop of \<^verbatim>\<open>get_Cw_cpx\<close> over the chordwise wake rows \<open>mm\<close> of one surface,
  and the outer loop over the surfaces, on the three lists \<open>(jjvec, iivec, valvec)\<close> and
  the offsets \<open>K0tot\<close>, \<open>K0totstar\<close>. The second unpacking overwrites \<open>N\<close>, as in the
  source.\<close>

fun Cw_wake_rows ::
  "complex \<Rightarrow> int \<Rightarrow> int \<Rightarrow> nat \<Rightarrow> nat \<Rightarrow> nat list
     \<Rightarrow> int list \<times> int list \<times> complex list \<Rightarrow> int list \<times> int list \<times> complex list"
where
  "Cw_wake_rows zval K0tot K0totstar M N [] acc = acc"
| "Cw_wake_rows zval K0tot K0totstar M N (mm # mms) (jjvec, iivec, valvec) =
     Cw_wake_rows zval K0tot K0totstar M N mms
       (jjvec @ py_range (K0tot + int N * (int M - 1)) (K0tot + int N * int M),
        iivec @ py_range (K0totstar + int mm * int N) (K0totstar + (int mm + 1) * int N),
        valvec @ replicate N (zval powi (- int mm - 1)))"

fun Cw_surfaces ::
  "MultiAeroGridSurfaces \<Rightarrow> complex \<Rightarrow> nat list
     \<Rightarrow> int \<times> int \<times> (int list \<times> int list \<times> complex list)
     \<Rightarrow> error + (int list \<times> int list \<times> complex list)"
where
  "Cw_surfaces ms zval [] (K0tot, K0totstar, acc) = Inr acc"
| "Cw_surfaces ms zval (ss # sss) (K0tot, K0totstar, acc) =
     (if ss < length (dimensions ms) \<and> ss < length (dimensions_star ms)
         \<and> ss < length (KK ms) \<and> ss < length (KK_star ms)
      then
        let (M, N) = dimensions ms ! ss;
            (Mstar, N) = dimensions_star ms ! ss;
            acc = Cw_wake_rows zval K0tot K0totstar M N [0..<Mstar] acc
        in Cw_surfaces ms zval sss
             (K0tot + int (KK ms ! ss), K0totstar + int (KK_star ms ! ss), acc)
      else Inl IndexError)"

text \<open>\<^verbatim>\<open>Dynamic.get_Cw_cpx\<close> and \<^verbatim>\<open>Frequency.get_Cw_cpx\<close> have the same body; it reads
  \<open>self.MS\<close>, \<open>self.K\<close> and \<open>self.K_star\<close>, which are the arguments here.\<close>

definition get_Cw_cpx ::
  "MultiAeroGridSurfaces \<Rightarrow> nat \<Rightarrow> nat \<Rightarrow> complex \<Rightarrow> error + complex mat"
where
  "get_Cw_cpx ms k k_star zval =
     (case Cw_surfaces ms zval [0..<n_surf ms] (0, 0, ([], [], [])) of
        Inl e \<Rightarrow> Inl e
      | Inr (jjvec, iivec, valvec) \<Rightarrow> csc_matrix valvec iivec jjvec k_star k)"

section \<open>Frequency-limited balancing\<close>

text \<open>The numerical routines \<^verbatim>\<open>balfreq\<close> calls: \<^verbatim>\<open>np.linalg.inv\<close>, \<^verbatim>\<open>libsp.solve\<close> and
  \<^verbatim>\<open>scipy.linalg.svd(M, full_matrices=False)\<close>. \<open>None\<close> is their \<^verbatim>\<open>LinAlgError\<close>. For a
  matrix with \<open>m\<close> rows and \<open>n\<close> columns the decomposition returns \<open>U\<close> with \<open>min m n\<close>
  columns, the \<open>min m n\<close> singular values, and \<open>Vh\<close> with \<open>min m n\<close> rows.\<close>

record linalg =
  linalg_inv :: "complex mat \<Rightarrow> complex mat option"
  libsp_solve :: "complex mat \<Rightarrow> complex mat \<Rightarrow> complex mat option"
  scalg_svd :: "real mat \<Rightarrow> (real mat \<times> real vec \<times> real mat) option"

text \<open>One pass of the loop over the frequencies, on \<open>(Qobs, Zc, Zo)\<close>. The factors \<open>Zc\<close> and
  \<open>Zo\<close> are allocated as complex arrays in the source but only ever hold real and
  imaginary parts: they are real matrices here. The first-order branch of the
  controllability part reads \<open>bp0\<close>, a name that is bound nowhere. The coefficient \<open>bm1\<close>
  is bound for the second order only, and only the second-order pass reads it.

  \<^verbatim>\<open>assemble_ss\<close> stores the matrices A and B as \<^verbatim>\<open>csc_matrix\<close> when \<open>use_sparse\<close> is set, with
  the same entries. \<^verbatim>\<open>balfreq\<close> then makes \<open>P\<close> and \<open>Pw\<close> dense but leaves \<open>Bup\<close>, a
  \<^verbatim>\<open>csc_matrix\<close>, as it is; \<^verbatim>\<open>np.dot(Kernel, Bup)\<close> is then no matrix product, and
  \<^verbatim>\<open>Cw_cpx.dot(Ygamma)\<close> raises \<^verbatim>\<open>TypeError\<close>, after the inversion and before the branch on the
  integration order.\<close>

definition balfreq_step ::
  "linalg \<Rightarrow> Dynamic \<Rightarrow> ss \<Rightarrow> complex list \<Rightarrow> real list \<Rightarrow> nat \<Rightarrow> nat
     \<Rightarrow> complex mat \<times> real mat \<times> real mat \<Rightarrow> error + (complex mat \<times> real mat \<times> real mat)"
where
  "balfreq_step lib self s zv wv Nk_low kk st =
     (case st of (Qobs, Zc_fact, Zo_fact) \<Rightarrow>
      let k = K self; ks = K_star self;
          Eye = eye k;
          Bup = block (ss_B s) 0 k 0 (ncols (ss_B s));
          P = block (ss_A s) 0 k 0 k;
          Pw = block (ss_A s) 0 k k (k + ks);
          b0 = (if integr_order self = 2 then - 2 else - 1);
          bm1 = 0.5;
          bp1 = (if integr_order self = 2 then 1.5 else 1)
      in
      if length wv \<le> kk then Inl IndexError
      else
        let zval = zv ! kk; Intfact = wv ! kk in
        (case get_Cw_cpx (MS self) k ks zval of
           Inl e \<Rightarrow> Inl e
         | Inr Cw_cpx \<Rightarrow>
             let PwCw_T = dot (transpose_mat Cw_cpx) (transpose_mat (cplx Pw)) in
             (case linalg_inv lib
                     (msub (msub (smul zval (cplx Eye)) (cplx P)) (transpose_mat PwCw_T)) of
                None \<Rightarrow> Inl LinAlgError
              | Some Kernel \<Rightarrow>
                  if use_sparse self then Inl TypeError
                  else
                  let Ygamma = smul (complex_of_real Intfact) (dot Kernel (cplx Bup));
                      Ygamma_star = dot Cw_cpx Ygamma
                  in
                  if integr_order self = 1 then Inl (NameError ''name bp0 is not defined'')
                  else if integr_order self = 2 then
                    let dfact = bp1 + b0 / zval + bm1 / zval ^ 2;
                        Qctrl = vstack Ygamma (vstack Ygamma_star
                                  (vstack (smul dfact Ygamma) (smul (1 / zval) Ygamma)));
                        nin = inputs s;
                        Zc_fact = set_block Zc_fact 0 (nrows Zc_fact) (2 * kk * nin) (2 * kk * nin + nin)
                               (real_mat Qctrl);
                        Zc_fact = set_block Zc_fact 0 (nrows Zc_fact) (2 * kk * nin + nin) (2 * (kk + 1) * nin)
                               (imag_mat Qctrl)
                    in
                    if Nk_low \<le> kk then Inr (Qobs, Zc_fact, Zo_fact)
                    else
                      let zinv = 1 / zval;
                          Cw_cpx_H = transpose_mat (conj_mat Cw_cpx);
                          ny = nrows (ss_C s);
                          C00T = transpose_mat (cplx (block (ss_C s) 0 ny 0 k));
                          C01T = transpose_mat (cplx (block (ss_C s) 0 ny k (k + ks)));
                          C02T = transpose_mat (cplx (block (ss_C s) 0 ny (k + ks) (2 * k + ks)));
                          nq = ncols Qobs;
                          Qobs = set_block Qobs (k + ks) (2 * k + ks) 0 nq (smul zval C02T);
                          Qobs = (if integr_order self = 2
                                  then set_block Qobs (2 * k + ks) (3 * k + ks) 0 nq
                                         (smul (bm1 * zval ^ 2) C02T)
                                  else Qobs);
                          rhs = madd (madd C00T (dot Cw_cpx_H C01T))
                                  (dot (madd (madd (smul (bp1 * zval) (conj_mat PwCw_T))
                                                   (smul (bp1 * zval) (transpose_mat (cplx P))))
                                             (smul (b0 * zval + bm1 * zval ^ 2) (cplx Eye)))
                                       C02T);
                          Qobs = set_block Qobs 0 k 0 nq (dot (transpose_mat (conj_mat Kernel)) rhs);
                          Eye_star = smul zinv (eye ks)
                      in
                      (case libsp_solve lib
                              (msub Eye_star
                                 (transpose_mat (cplx (block (ss_A s) k (k + ks) k (k + ks)))))
                              (madd (dot (transpose_mat (cplx Pw))
                                         (madd (block Qobs 0 k 0 nq) (smul (bp1 * zval) C02T)))
                                    C01T) of
                         None \<Rightarrow> Inl LinAlgError
                       | Some X \<Rightarrow>
                           let Qobs = set_block Qobs k (k + ks) 0 nq X;
                               nout = outputs s;
                               Zo_fact = set_block Zo_fact 0 (nrows Zo_fact) (2 * kk * nout) (2 * kk * nout + nout)
                                      (smul Intfact (real_mat Qobs));
                               Zo_fact = set_block Zo_fact 0 (nrows Zo_fact) (2 * kk * nout + nout)
                                      (2 * (kk + 1) * nout) (smul Intfact (imag_mat Qobs))
                           in Inr (Qobs, Zc_fact, Zo_fact))
                  else Inl (NameError ''Specify valid integration order''))))"

fun balfreq_loop ::
  "linalg \<Rightarrow> Dynamic \<Rightarrow> ss \<Rightarrow> complex list \<Rightarrow> real list \<Rightarrow> nat \<Rightarrow> nat list
     \<Rightarrow> complex mat \<times> real mat \<times> real mat \<Rightarrow> error + (complex mat \<times> real mat \<times> real mat)"
where
  "balfreq_loop lib self s zv wv Nk_low [] st = Inr st"
| "balfreq_loop lib self s zv wv Nk_low (kk # kks) st =
     (case balfreq_step lib self s zv wv Nk_low kk st of
        Inl e \<Rightarrow> Inl e
      | Inr st' \<Rightarrow> balfreq_loop lib self s zv wv Nk_low kks st')"

text \<open>After the loop: the factors are stored, the product of the factors is decomposed,
  and the balanced model is built and stored with the projection and the singular
  values. Every singular value the decomposition returns enters \<^verbatim>\<open>sinv = s**(-0.5)\<close>: a zero
  one makes the entries of the projection that it reaches not finite, and nothing
  raises.\<close>

definition balfreq_project ::
  "linalg \<Rightarrow> ss \<Rightarrow> real mat \<Rightarrow> real mat \<Rightarrow> Dynamic \<Rightarrow> error option \<times> Dynamic"
where
  "balfreq_project lib s Zc_fact Zo_fact self =
     (let self = self \<lparr> Zc := Some Zc_fact, Zo := Some Zo_fact \<rparr>;
          M = dot (transpose_mat Zo_fact) Zc_fact
      in case scalg_svd lib M of
           None \<Rightarrow> (Some LinAlgError, self)
         | Some (U, sv, Vh) \<Rightarrow>
             let sinv = Vec (vlen sv) (\<lambda>i. fl_rsqrt (vat sv i));
                 Tm = fl_dot (fl_mat Zc_fact) (fl_mul_cols (fl_mat (transpose_mat Vh)) sinv);
                 Ti = fl_dot (transpose_mat (fl_mul_cols (fl_mat U) sinv))
                        (fl_mat (transpose_mat Zo_fact));
                 Ab = fl_dot Ti (fl_dot (fl_mat (ss_A s)) Tm);
                 Bb = fl_dot Ti (fl_mat (ss_B s));
                 Cb = fl_dot (fl_mat (ss_C s)) Tm
             in (None, self \<lparr> SSb := Some \<lparr> ssb_A = Ab, ssb_B = Bb, ssb_C = Cb,
                                            ssb_D = ss_D s, ssb_dt = ss_dt s \<rparr>,
                             T := Some Tm, gv := Some sv \<rparr>))"

text \<open>\<^verbatim>\<open>Dynamic.balfreq\<close>. The weights are optional arguments; the result is the exception
  (if any) and the model afterwards.\<close>

definition balfreq ::
  "linalg \<Rightarrow> real list \<Rightarrow> real list \<Rightarrow> real list option \<Rightarrow> real list option \<Rightarrow> Dynamic
     \<Rightarrow> error option \<times> Dynamic"
where
  "balfreq lib kv_low kv_high wv_low wv_high self =
     (if wv_low = None \<or> wv_high = None
      then (Some (NameError ''Automatic weights under development''), self)
      else if remove_predictor self
      then (Some (NameError ''Case without predictor Not yet implemented!''), self)
      else
        (case SS self of
           None \<Rightarrow> (Some AttributeError, self)
         | Some s \<Rightarrow>
             let Nk_low = length kv_low;
                 kvdt = map (\<lambda>k. k * ss_dt s) (kv_low @ kv_high);
                 wv = map (\<lambda>w. w * ss_dt s) (the wv_low @ the wv_high);
                 zv = map (\<lambda>x. Complex (cos x) (sin x)) kvdt;
                 Qobs = zeros (states s) (outputs s);
                 Zc_fact = zeros (states s) (2 * inputs s * length kvdt);
                 Zo_fact = zeros (states s) (2 * outputs s * Nk_low)
             in (case balfreq_loop lib self s zv wv Nk_low [0..<length kvdt]
                        (Qobs, Zc_fact, Zo_fact) of
                   Inl e \<Rightarrow> (Some e, self)
                 | Inr (Qobs, Zc_fact, Zo_fact) \<Rightarrow> balfreq_project lib s Zc_fact Zo_fact self)))"

section \<open>A small lattice\<close>

text \<open>One surface with one bound panel, one wake panel and four vertices; the influence
  matrix \<open>A0\<close> is the identity, so that solving with it returns the right-hand side, and the
  wake row takes over the circulation of the trailing edge.\<close>

definition ex_MS :: MultiAeroGridSurfaces where
  "ex_MS = \<lparr> n_surf = 1, dimensions = [(1, 1)], dimensions_star = [(1, 1)],
             KK = [1], KK_star = [1], KKzeta = [4] \<rparr>"

definition ex_blocks :: uvlm_blocks where
  "ex_blocks = \<lparr> A0 = eye 1, A0W = Mat 1 1 (\<lambda>i j. 1), Cgamma = Mat 1 1 (\<lambda>i j. 1),
      CgammaW = zeros 1 1, Ducdzeta = zeros 1 12, Wnv0 = zeros 1 12,
      Dfqsdgamma = zeros 12 1, Dfqsdgamma_star = zeros 12 1, Dfunstdgamma_dot = zeros 12 1,
      Dfqsdzeta_vrel0 = zeros 12 12, Dfqsdvind_zeta = zeros 12 12, Dfqsduinput = zeros 12 12 \<rparr>"

definition ex_lu_solve :: "real mat \<Rightarrow> real mat \<Rightarrow> real mat" where
  "ex_lu_solve a x = x"

definition ex_model :: "int \<Rightarrow> bool \<Rightarrow> Dynamic" where
  "ex_model order rp =
     \<lparr> MS = ex_MS, K = 1, K_star = 1, Kzeta = 4, dt = 0.05, integr_order = order,
       Nx = (if order = 1 then 3 else 4), Nu = 36, Ny = 12,
       remove_predictor = rp, B_predictor = None, include_added_mass = True, use_sparse = True,
       scaling = \<lparr> sf_length = 2, sf_speed = 5, sf_density = 1, sf_time = 2 / 5,
                   sf_circulation = 10, sf_dyn_pressure = 25 / 2, sf_force = 50 \<rparr>,
       SS = None, Zc = None, Zo = None, SSb = None, T = None, gv = None \<rparr>"

text \<open>The bound circulation of step \<open>n+1\<close> in terms of the bound and the wake circulation of
  step \<open>n\<close>: the local variables \<open>AinvAWCgamma\<close> and \<open>AinvAWCgammaW\<close> of \<^verbatim>\<open>assemble_ss\<close>.\<close>

definition AinvAWCgamma :: "(real mat \<Rightarrow> real mat \<Rightarrow> real mat) \<Rightarrow> uvlm_blocks \<Rightarrow> real mat" where
  "AinvAWCgamma lu_solve bl = mneg (dot (lu_solve (A0 bl) (A0W bl)) (Cgamma bl))"

definition AinvAWCgammaW :: "(real mat \<Rightarrow> real mat \<Rightarrow> real mat) \<Rightarrow> uvlm_blocks \<Rightarrow> real mat" where
  "AinvAWCgammaW lu_solve bl = mneg (dot (lu_solve (A0 bl) (A0W bl)) (CgammaW bl))"

text \<open>The matrix \<^verbatim>\<open>zval*Eye - P - PwCw_T.T\<close> that \<^verbatim>\<open>balfreq\<close> inverts at a frequency point, and
  the projection pair it builds from the factors and their decomposition.\<close>

definition balfreq_kernel :: "Dynamic \<Rightarrow> ss \<Rightarrow> complex mat \<Rightarrow> complex \<Rightarrow> complex mat" where
  "balfreq_kernel self s Cw_cpx zval =
     msub (msub (smul zval (cplx (eye (K self)))) (cplx (block (ss_A s) 0 (K self) 0 (K self))))
       (transpose_mat (dot (transpose_mat Cw_cpx)
          (transpose_mat (cplx (block (ss_A s) 0 (K self) (K self) (K self + K_star self))))))"

definition balancing_T :: "real mat \<Rightarrow> real vec \<Rightarrow> real mat \<Rightarrow> flt mat" where
  "balancing_T Zc_fact sv Vh =
     fl_dot (fl_mat Zc_fact)
       (fl_mul_cols (fl_mat (transpose_mat Vh)) (Vec (vlen sv) (\<lambda>i. fl_rsqrt (vat sv i))))"

definition balancing_Ti :: "real mat \<Rightarrow> real vec \<Rightarrow> real mat \<Rightarrow> flt mat" where
  "balancing_Ti Zo_fact sv U =
     fl_dot (transpose_mat (fl_mul_cols (fl_mat U) (Vec (vlen sv) (\<lambda>i. fl_rsqrt (vat sv i)))))
       (fl_mat (transpose_mat Zo_fact))"

text \<open>The same lattice assembled with dense matrices (\<^verbatim>\<open>UseSparse=False\<close>), and influence
  coefficients of the wake for which the matrix that \<^verbatim>\<open>balfreq\<close> inverts vanishes at the
  frequency zero.\<close>

definition ex_dense :: "int \<Rightarrow> Dynamic" where
  "ex_dense order = (ex_model order False) \<lparr> use_sparse := False \<rparr>"

definition ex_blocks_singular :: uvlm_blocks where
  "ex_blocks_singular = ex_blocks \<lparr> A0W := Mat 1 1 (\<lambda>i j. - 1) \<rparr>"

text \<open>Numerical routines that are exact where the small lattice calls them: the inverse of
  a 1 by 1 matrix, the solution of a 1 by 1 system (both raise on a zero entry), and the
  thin decomposition of a zero matrix with \<open>m\<close> rows and \<open>n\<close> columns, which has
  \<open>min m n\<close> singular values, all zero, and the leading columns and rows of identity
  matrices as singular vectors. The decomposition of other matrices is not provided
  (\<open>None\<close>).\<close>

definition is_zero_mat :: "real mat \<Rightarrow> bool" where
  "is_zero_mat m = list_all (\<lambda>i. list_all (\<lambda>j. elem m i j = 0) [0..<ncols m]) [0..<nrows m]"

definition zero_svd :: "real mat \<Rightarrow> (real mat \<times> real vec \<times> real mat) option" where
  "zero_svd m =
     (let r = min (nrows m) (ncols m) in
      if is_zero_mat m
      then Some (Mat (nrows m) r (\<lambda>i j. if i = j then 1 else 0), Vec r (\<lambda>i. 0),
                 Mat r (ncols m) (\<lambda>i j. if i = j then 1 else 0))
      else None)"

definition ex_linalg :: linalg where
  "ex_linalg =
     \<lparr> linalg_inv = (\<lambda>m. if elem m 0 0 = 0 then None
                          else Some (Mat (nrows m) (ncols m) (\<lambda>i j. 1 / elem m 0 0))),
       libsp_solve = (\<lambda>a b. if elem a 0 0 = 0 then None
                             else Some (Mat (nrows b) (ncols b) (\<lambda>i j. elem b i j / elem a 0 0))),
       scalg_svd = zero_svd \<rparr>"

section \<open>The layout of the wake operator\<close>

text \<open>Modelled from the spec: \<^verbatim>\<open>MultiAeroGridSurfaces\<close> is an external collaborator, and the
  data model says that the counts of a surface derive from its grids. A surface with a
  bound grid of \<open>M\<close> chordwise by \<open>N\<close> spanwise panels (\<open>M\<close> at least 1) has \<open>M N\<close> bound panels;
  its wake has the same number \<open>N\<close> of spanwise panels and \<open>M_star N\<close> panels; \<open>K\<close> and
  \<open>K_star\<close> are the totals.\<close>

definition lattice_sizes_ok :: "MultiAeroGridSurfaces \<Rightarrow> nat \<Rightarrow> nat \<Rightarrow> bool" where
  "lattice_sizes_ok ms k k_star \<longleftrightarrow>
       length (dimensions ms) = n_surf ms \<and> length (dimensions_star ms) = n_surf ms
     \<and> length (KK ms) = n_surf ms \<and> length (KK_star ms) = n_surf ms
     \<and> k = sum_list (KK ms) \<and> k_star = sum_list (KK_star ms)
     \<and> list_all (\<lambda>ss. 1 \<le> fst (dimensions ms ! ss)
                     \<and> snd (dimensions_star ms ! ss) = snd (dimensions ms ! ss)
                     \<and> KK ms ! ss = fst (dimensions ms ! ss) * snd (dimensions ms ! ss)
                     \<and> KK_star ms ! ss
                         = fst (dimensions_star ms ! ss) * snd (dimensions_star ms ! ss))
          [0..<n_surf ms]"

text \<open>The first bound panel and the first wake panel of surface \<open>ss\<close> in the global
  numbering, the wake panel \<open>(mm, n)\<close> of a surface and its trailing-edge bound panel \<open>n\<close>
  (the last chordwise row of the bound grid).\<close>

definition K0tot_at :: "MultiAeroGridSurfaces \<Rightarrow> nat \<Rightarrow> nat" where
  "K0tot_at ms ss = sum_list (take ss (KK ms))"

definition K0totstar_at :: "MultiAeroGridSurfaces \<Rightarrow> nat \<Rightarrow> nat" where
  "K0totstar_at ms ss = sum_list (take ss (KK_star ms))"

definition wake_panel :: "MultiAeroGridSurfaces \<Rightarrow> nat \<Rightarrow> nat \<Rightarrow> nat \<Rightarrow> nat" where
  "wake_panel ms ss mm n = K0totstar_at ms ss + mm * snd (dimensions_star ms ! ss) + n"

definition trailing_edge_panel :: "MultiAeroGridSurfaces \<Rightarrow> nat \<Rightarrow> nat \<Rightarrow> nat" where
  "trailing_edge_panel ms ss n =
     K0tot_at ms ss + snd (dimensions ms ! ss) * (fst (dimensions ms ! ss) - 1) + n"

text \<open>The coordinate triplets (row, column, value) that the loops of \<^verbatim>\<open>get_Cw_cpx\<close> append,
  as one list.\<close>

definition wake_rows_triplets ::
  "complex \<Rightarrow> int \<Rightarrow> int \<Rightarrow> nat \<Rightarrow> nat \<Rightarrow> nat list \<Rightarrow> (int \<times> int \<times> complex) list"
where
  "wake_rows_triplets zval K0tot K0totstar M N mms =
     concat (map (\<lambda>mm. map (\<lambda>n. (K0totstar + int mm * int N + int n,
                                  K0tot + int N * (int M - 1) + int n,
                                  zval powi (- int mm - 1))) [0..<N]) mms)"

fun surfaces_triplets ::
  "MultiAeroGridSurfaces \<Rightarrow> complex \<Rightarrow> nat list \<Rightarrow> int \<Rightarrow> int \<Rightarrow> (int \<times> int \<times> complex) list"
where
  "surfaces_triplets ms zval [] K0tot K0totstar = []"
| "surfaces_triplets ms zval (ss # sss) K0tot K0totstar =
     wake_rows_triplets zval K0tot K0totstar (fst (dimensions ms ! ss))
       (snd (dimensions_star ms ! ss)) [0..<fst (dimensions_star ms ! ss)]
     @ surfaces_triplets ms zval sss (K0tot + int (KK ms ! ss)) (K0totstar + int (KK_star ms ! ss))"

text \<open>A lattice of two surfaces: bound grids of 2 by 2 and 1 by 3 panels, wakes of 3 and 2
  chordwise rows.\<close>

definition ex_MS2 :: MultiAeroGridSurfaces where
  "ex_MS2 = \<lparr> n_surf = 2, dimensions = [(2, 2), (1, 3)], dimensions_star = [(3, 2), (2, 3)],
              KK = [4, 3], KK_star = [6, 6], KKzeta = [9, 8] \<rparr>"

section \<open>Array algebra\<close>

lemma sum_upto_sum: "sum_upto n f = sum f {..<n}"
  by (simp add: sum_upto_def interv_sum_list_conv_sum_set_nat atLeast0LessThan)

lemma shape_simps [simp]:
  "nrows (zeros m n) = m" "ncols (zeros m n) = n"
  "nrows (set_block a r0 r1 c0 c1 x) = nrows a" "ncols (set_block a r0 r1 c0 c1 x) = ncols a"
  "nrows (add_diag b r0 c0 n v) = nrows b" "ncols (add_diag b r0 c0 n v) = ncols b"
  "nrows (set_diag a r0 c0 n w) = nrows a" "ncols (set_diag a r0 c0 n w) = ncols a"
  "nrows (dot c d) = nrows c" "ncols (dot c d) = ncols d"
  "nrows (madd b b') = nrows b" "ncols (madd b b') = ncols b"
  "nrows (imul_cols e c0 c1 f) = nrows e" "ncols (imul_cols e c0 c1 f) = ncols e"
  "nrows (idiv_cols g c0 c1 h) = nrows g" "ncols (idiv_cols g c0 c1 h) = ncols g"
  by (simp_all add: zeros_def set_block_def add_diag_def set_diag_def dot_def madd_def
        imul_cols_def idiv_cols_def)

lemma elem_simps [simp]:
  "elem (zeros m n) i j = 0"
  "elem (set_block a r0 r1 c0 c1 x) i j =
     (if r0 \<le> i \<and> i < r1 \<and> c0 \<le> j \<and> j < c1 then elem x (i - r0) (j - c0) else elem a i j)"
  "elem (set_diag a r0 c0 n v) i j =
     (if r0 \<le> i \<and> i < r0 + n \<and> c0 \<le> j \<and> j - c0 = i - r0 then v else elem a i j)"
  "elem (add_diag b r0 c0 n w) i j =
     (if r0 \<le> i \<and> i < r0 + n \<and> c0 \<le> j \<and> j - c0 = i - r0 then elem b i j + w else elem b i j)"
  "elem (smul c d) i j = c * elem d i j"
  by (simp_all add: zeros_def set_block_def set_diag_def add_diag_def smul_def)

lemma dotv_dot: "dotv (dot a b) x = dotv a (dotv b x)"
proof -
  have "(\<Sum>j<ncols b. (\<Sum>k<ncols a. elem a i k * elem b k j) * vat x j)
      = (\<Sum>k<ncols a. elem a i k * (\<Sum>j<ncols b. elem b k j * vat x j))" for i
  proof -
    have "(\<Sum>j<ncols b. (\<Sum>k<ncols a. elem a i k * elem b k j) * vat x j)
        = (\<Sum>j<ncols b. \<Sum>k<ncols a. elem a i k * (elem b k j * vat x j))"
      by (simp add: sum_distrib_right mult.assoc)
    also have "\<dots> = (\<Sum>k<ncols a. \<Sum>j<ncols b. elem a i k * (elem b k j * vat x j))"
      by (rule sum.swap)
    finally show ?thesis by (simp add: sum_distrib_left)
  qed
  then show ?thesis
    by (simp add: dotv_def dot_def sum_upto_sum)
qed

lemma dotv_vsub: "dotv a (vsub x y) = vsub (dotv a x) (dotv a y)"
  by (simp add: dotv_def vsub_def sum_upto_sum right_diff_distrib sum_subtractf)

lemma dotv_madd: "ncols b = ncols a \<Longrightarrow> dotv (madd a b) x = vadd (dotv a x) (dotv b x)"
  by (simp add: dotv_def vadd_def madd_def sum_upto_sum distrib_right sum.distrib)

lemma vsub_vadd_cancel: "vsub (vadd x y) y = (x :: 'a::ab_group_add vec)"
  by (cases x) (simp add: vsub_def vadd_def)

lemma vsub_vadd_swap: "vadd (vsub x y) (vadd y z) = vadd (x :: 'a::ab_group_add vec) z"
  by (simp add: vsub_def vadd_def)

lemma idiv_imul_cols: "f \<noteq> 0 \<Longrightarrow> idiv_cols (imul_cols a c0 c1 f) c0 c1 f = (a :: 'a::field mat)"
  by (cases a) (simp add: idiv_cols_def imul_cols_def fun_eq_iff)

lemma sdiv_smul: "f \<noteq> 0 \<Longrightarrow> sdiv (smul f a) f = (a :: 'a::field mat)"
  by (cases a) (simp add: sdiv_def smul_def fun_eq_iff)

lemma idiv_cols_commute:
  "c1 \<le> c2 \<Longrightarrow> idiv_cols (imul_cols a c2 c3 g) c0 c1 f = imul_cols (idiv_cols a c0 c1 f) c2 c3 g"
  by (auto simp add: idiv_cols_def imul_cols_def fun_eq_iff)

lemma scale_cols_roundtrip:
  assumes "f \<noteq> 0" "g \<noteq> 0"
  shows "idiv_cols (idiv_cols (imul_cols (imul_cols a 0 c f) c n g) 0 c f) c n g = (a :: real mat)"
  using assms by (simp add: idiv_cols_commute idiv_imul_cols)

section \<open>Construction and assembly\<close>

lemma init_ok:
  assumes "order = 1 \<or> order = 2"
    and "case sd of None \<Rightarrow> True | Some (l, u, rho) \<Rightarrow> u \<noteq> 0"
  shows "\<exists>self. Dynamic_init ms dt0 order rp sd sp = Inr self"
  using assms by (auto simp add: Dynamic_init_def Let_def split: option.splits prod.splits)

lemma init_sizes:
  assumes "Dynamic_init ms dt0 order rp sd sp = Inr self"
  shows "K self = sum_list (KK ms) \<and> K_star self = sum_list (KK_star ms)
    \<and> Kzeta self = sum_list (KKzeta ms) \<and> integr_order self = order \<and> (order = 1 \<or> order = 2)
    \<and> Nx self = (if order = 1 then 2 * K self + K_star self else 3 * K self + K_star self)
    \<and> Ny self = 3 * Kzeta self \<and> Nu self = 9 * Kzeta self \<and> remove_predictor self = rp
    \<and> dt self = dt0 \<and> SS self = None \<and> B_predictor self = None \<and> include_added_mass self"
  using assms by (auto simp add: Dynamic_init_def Let_def split: if_splits option.splits prod.splits)

lemma init_scaling:
  assumes "Dynamic_init ms dt0 order rp (Some (l, u, rho)) sp = Inr self"
  shows "sf_length (scaling self) = l \<and> sf_speed (scaling self) = u \<and> sf_density (scaling self) = rho
    \<and> sf_time (scaling self) = l / u \<and> sf_circulation (scaling self) = u * l
    \<and> sf_dyn_pressure (scaling self) = 0.5 * rho * u ^ 2
    \<and> sf_force (scaling self) = 0.5 * rho * u ^ 2 * l ^ 2 \<and> u \<noteq> 0"
  using assms by (auto simp add: Dynamic_init_def Let_def split: if_splits)

lemma ex_model_init:
  "order = 1 \<or> order = 2 \<Longrightarrow>
   Dynamic_init ex_MS 0.05 order rp (Some (2, 5, 1)) True = Inr (ex_model order rp)"
  by (auto simp add: Dynamic_init_def ex_MS_def ex_model_def Let_def power2_eq_square)

lemma assemble_A_shape:
  "nrows (assemble_A lu bl self) = Nx self" "ncols (assemble_A lu bl self) = Nx self"
  by (simp_all add: assemble_A_def Let_def)

lemma assemble_B_shape:
  "nrows (assemble_B lu bl self) = Nx self" "ncols (assemble_B lu bl self) = Nu self"
  by (simp_all add: assemble_B_def Let_def)

lemma assemble_C_shape:
  "nrows (assemble_C bl self) = Ny self" "ncols (assemble_C bl self) = Nx self"
  by (simp_all add: assemble_C_def Let_def)

lemma assemble_D_shape:
  "nrows (assemble_D bl self) = Ny self" "ncols (assemble_D bl self) = Nu self"
  by (simp_all add: assemble_D_def Let_def)

lemma assemble_ss_direct:
  "\<not> remove_predictor self \<Longrightarrow>
   SS (assemble_ss lu bl self) =
     Some \<lparr> ss_A = assemble_A lu bl self, ss_B = assemble_B lu bl self,
            ss_C = assemble_C bl self, ss_D = assemble_D bl self, ss_dt = dt self \<rparr>"
  by (simp add: assemble_ss_def Let_def)

lemma assemble_ss_predictor:
  "remove_predictor self \<Longrightarrow>
   SS (assemble_ss lu bl self) =
     Some \<lparr> ss_A = assemble_A lu bl self,
            ss_B = dot (assemble_A lu bl self) (assemble_B lu bl self),
            ss_C = assemble_C bl self,
            ss_D = madd (dot (assemble_C bl self) (assemble_B lu bl self)) (assemble_D bl self),
            ss_dt = dt self \<rparr> \<and>
   B_predictor (assemble_ss lu bl self) = Some (assemble_B lu bl self)"
  by (simp add: assemble_ss_def Let_def SSconv_def)

lemma assemble_ss_A:
  "SS (assemble_ss lu bl self) = Some s \<Longrightarrow> ss_A s = assemble_A lu bl self"
  by (cases "remove_predictor self") (auto simp add: assemble_ss_predictor assemble_ss_direct)

lemma assemble_ss_frame:
  "remove_predictor (assemble_ss lu bl self) = remove_predictor self"
  "scaling (assemble_ss lu bl self) = scaling self"
  "Kzeta (assemble_ss lu bl self) = Kzeta self"
  by (simp_all add: assemble_ss_def Let_def SSconv_def)

lemma assemble_ss_SS: "\<exists>s. SS (assemble_ss lu bl self) = Some s"
  by (simp add: assemble_ss_def Let_def SSconv_def)

lemma assemble_parts_remove_predictor:
  "assemble_A lu bl (self\<lparr>remove_predictor := p\<rparr>) = assemble_A lu bl self"
  "assemble_B lu bl (self\<lparr>remove_predictor := p\<rparr>) = assemble_B lu bl self"
  "assemble_C bl (self\<lparr>remove_predictor := p\<rparr>) = assemble_C bl self"
  "assemble_D bl (self\<lparr>remove_predictor := p\<rparr>) = assemble_D bl self"
  by (simp_all add: assemble_A_def assemble_B_def assemble_C_def assemble_D_def Let_def)

lemma assemble_ss_shapes:
  "\<exists>s. SS (assemble_ss lu bl self) = Some s
     \<and> nrows (ss_A s) = Nx self \<and> ncols (ss_A s) = Nx self
     \<and> nrows (ss_B s) = Nx self \<and> ncols (ss_B s) = Nu self
     \<and> nrows (ss_C s) = Ny self \<and> ncols (ss_C s) = Nx self
     \<and> nrows (ss_D s) = Ny self \<and> ncols (ss_D s) = Nu self"
  by (cases "remove_predictor self")
    (simp_all add: assemble_ss_predictor assemble_ss_direct assemble_A_shape assemble_B_shape
      assemble_C_shape assemble_D_shape)

lemma A_bound_rows:
  assumes "i < K self"
  shows "j < K self \<Longrightarrow> elem (assemble_A lu bl self) i j = elem (AinvAWCgamma lu bl) i j"
    and "j < K_star self \<Longrightarrow>
           elem (assemble_A lu bl self) i (K self + j) = elem (AinvAWCgammaW lu bl) i j"
  using assms by (simp_all add: assemble_A_def Let_def AinvAWCgamma_def AinvAWCgammaW_def)

lemma A_order2:
  assumes "integr_order self = 2" "i < K self"
  shows "j < K self \<Longrightarrow> elem (assemble_A lu bl self) (K self + K_star self + i) j
           = 1.5 * elem (AinvAWCgamma lu bl) i j + (if j = i then - 2 else 0)"
    and "j < K_star self \<Longrightarrow>
           elem (assemble_A lu bl self) (K self + K_star self + i) (K self + j)
           = 1.5 * elem (AinvAWCgammaW lu bl) i j"
    and "j < K self \<Longrightarrow>
           elem (assemble_A lu bl self) (K self + K_star self + i) (2 * K self + K_star self + j)
           = (if j = i then 0.5 else 0)"
    and "elem (assemble_A lu bl self) (2 * K self + K_star self + i) j = (if j = i then 1 else 0)"
  using assms by (auto simp add: assemble_A_def Let_def AinvAWCgamma_def AinvAWCgammaW_def)

lemma A_order1:
  assumes "integr_order self = 1" "i < K self"
  shows "j < K self \<Longrightarrow> elem (assemble_A lu bl self) (K self + K_star self + i) j
           = elem (AinvAWCgamma lu bl) i j + (if j = i then - 1 else 0)"
    and "j < K_star self \<Longrightarrow>
           elem (assemble_A lu bl self) (K self + K_star self + i) (K self + j)
           = elem (AinvAWCgammaW lu bl) i j"
  using assms by (auto simp add: assemble_A_def Let_def AinvAWCgamma_def AinvAWCgammaW_def)

section \<open>Time stepping\<close>

lemma predictor_state:
  "vadd (dotv a (vsub x (dotv b u0))) (dotv (dot a b) u0)
     = vsub (vadd (dotv a x) (dotv b u1)) (dotv b u1)"
  by (simp add: dotv_dot dotv_vsub vsub_vadd_cancel) (simp add: vadd_def vsub_def dotv_def)

lemma predictor_output:
  assumes d: "ncols d = ncols b"
  shows "vadd (dotv c (vsub x1 (dotv b u1))) (dotv (madd (dot c b) d) u1)
           = vadd (dotv c x1) (dotv d u1)"
proof -
  have "ncols d = ncols (dot c b)" using d by simp
  then have "dotv (madd (dot c b) d) u1 = vadd (dotv c (dotv b u1)) (dotv d u1)"
    by (simp add: dotv_madd dotv_dot)
  then show ?thesis
    by (simp add: dotv_vsub vsub_vadd_swap)
qed

lemma step_direct:
  assumes "SS md = Some s" "\<not> remove_predictor md"
  shows "solve_step md x u0 (Some u1) ts =
           Inr (vadd (dotv (ss_A s) x) (dotv (ss_B s) u1),
                vadd (dotv (ss_C s) (vadd (dotv (ss_A s) x) (dotv (ss_B s) u1)))
                     (dotv (ss_D s) u1))"
  using assms by (simp add: solve_step_def Let_def)

lemma step_predictor:
  assumes "SS md = Some s" "\<not> remove_predictor md"
    and "SS mp = Some \<lparr> ss_A = ss_A s, ss_B = dot (ss_A s) (ss_B s), ss_C = ss_C s,
                         ss_D = madd (dot (ss_C s) (ss_B s)) (ss_D s), ss_dt = d \<rparr>"
    and "remove_predictor mp" and "B_predictor mp = Some (ss_B s)"
    and "ncols (ss_D s) = ncols (ss_B s)"
    and "solve_step md x u0 (Some u1) ts = Inr (x1, y1)"
  shows "solve_step mp (vsub x (dotv (ss_B s) u0)) u0 (Some u1) False
           = Inr (vsub x1 (dotv (ss_B s) u1), y1)"
proof -
  have x1: "x1 = vadd (dotv (ss_A s) x) (dotv (ss_B s) u1)"
    and y1: "y1 = vadd (dotv (ss_C s) x1) (dotv (ss_D s) u1)"
    using assms(7) step_direct[OF assms(1,2), of x u0 u1 ts] by auto
  have h: "vadd (dotv (ss_A s) (vsub x (dotv (ss_B s) u0))) (dotv (dot (ss_A s) (ss_B s)) u0)
             = vsub x1 (dotv (ss_B s) u1)"
    unfolding x1 by (rule predictor_state)
  show ?thesis
    using assms(3,4,5) h predictor_output[OF assms(6), of "ss_C s" x1 u1]
    by (simp add: solve_step_def Let_def y1)
qed

lemma simulate_equiv:
  assumes "SS md = Some s" "\<not> remove_predictor md"
    and "SS mp = Some \<lparr> ss_A = ss_A s, ss_B = dot (ss_A s) (ss_B s), ss_C = ss_C s,
                         ss_D = madd (dot (ss_C s) (ss_B s)) (ss_D s), ss_dt = d \<rparr>"
    and "remove_predictor mp" and "B_predictor mp = Some (ss_B s)"
    and "ncols (ss_D s) = ncols (ss_B s)"
  shows "simulate mp False (vsub x (dotv (ss_B s) u0)) (u0 # us) = simulate md ts x (u0 # us)"
proof (induction us arbitrary: x u0)
  case Nil
  show ?case by simp
next
  case (Cons u1 us)
  obtain x1 y1 where d: "solve_step md x u0 (Some u1) ts = Inr (x1, y1)"
    using step_direct[OF assms(1,2)] by blast
  have p: "solve_step mp (vsub x (dotv (ss_B s) u0)) u0 (Some u1) False
             = Inr (vsub x1 (dotv (ss_B s) u1), y1)"
    by (rule step_predictor[OF assms d])
  show ?case
    by (simp add: d p Cons.IH)
qed

lemma simulate_direct_ok:
  assumes "SS md = Some s" "\<not> remove_predictor md"
  shows "\<exists>ys. simulate md ts x us = Inr ys \<and> length ys = length us - 1"
proof (induction us arbitrary: x)
  case Nil
  show ?case by simp
next
  case (Cons u0 us)
  show ?case
  proof (cases us)
    case Nil
    then show ?thesis by simp
  next
    case (Cons u1 rest)
    obtain x1 y1 where d: "solve_step md x u0 (Some u1) ts = Inr (x1, y1)"
      using step_direct[OF assms(1,2)] by blast
    obtain ys where "simulate md ts x1 us = Inr ys \<and> length ys = length us - 1"
      using Cons.IH by blast
    then show ?thesis using Cons d by simp
  qed
qed

lemma solve_step_default: "solve_step self x u None ts = solve_step self x u (Some u) ts"
  by (simp add: solve_step_def)

lemma solve_step_assembled:
  "\<exists>x1 y1. solve_step (assemble_ss lu bl self) x u u1 ts = Inr (x1, y1)"
  by (simp add: solve_step_def assemble_ss_def Let_def SSconv_def)

section \<open>Scaling\<close>

lemma nondimss_ok:
  assumes "SS self = Some s" "sf_circulation (scaling self) \<noteq> 0" "sf_force (scaling self) \<noteq> 0"
    "sf_time (scaling self) \<noteq> 0"
  shows "nondimss self =
    (None, self \<lparr> SS := Some \<lparr>
        ss_A = ss_A s,
        ss_B = imul_cols (imul_cols (ss_B s) 0 (3 * Kzeta self)
                  (sf_length (scaling self) / sf_circulation (scaling self)))
                 (3 * Kzeta self) (ncols (ss_B s))
                 (sf_speed (scaling self) / sf_circulation (scaling self)),
        ss_C = smul (sf_circulation (scaling self) / sf_force (scaling self)) (ss_C s),
        ss_D = imul_cols (imul_cols (ss_D s) 0 (3 * Kzeta self)
                  (sf_length (scaling self) / sf_force (scaling self)))
                 (3 * Kzeta self) (ncols (ss_D s))
                 (sf_speed (scaling self) / sf_force (scaling self)),
        ss_dt = ss_dt s / sf_time (scaling self) \<rparr> \<rparr>)"
  using assms by (cases s) (simp add: nondimss_def Let_def)

lemma dimss_nondimss:
  assumes "SS self = Some s"
    and "sf_length (scaling self) \<noteq> 0" "sf_speed (scaling self) \<noteq> 0"
    and "sf_circulation (scaling self) \<noteq> 0" "sf_force (scaling self) \<noteq> 0"
    and "sf_time (scaling self) \<noteq> 0"
  shows "fst (nondimss self) = None \<and> dimss (snd (nondimss self)) = (None, self)"
proof -
  have "self \<lparr> SS := Some s \<rparr> = self"
    using assms(1) by (cases self) simp
  then show ?thesis
    using assms
    by (cases s) (simp add: nondimss_ok dimss_def Let_def scale_cols_roundtrip sdiv_smul)
qed

lemma nondimss_frame:
  "B_predictor (snd (nondimss self)) = B_predictor self"
  "map_option ss_A (SS (snd (nondimss self))) = map_option ss_A (SS self)"
  "snd (nondimss self) \<lparr> SS := SS self \<rparr> = self"
  by (simp_all add: nondimss_def Let_def split: option.splits)

lemma dimss_frame:
  "B_predictor (snd (dimss self)) = B_predictor self"
  "map_option ss_A (SS (snd (dimss self))) = map_option ss_A (SS self)"
  "snd (dimss self) \<lparr> SS := SS self \<rparr> = self"
  by (simp_all add: dimss_def Let_def split: option.splits)

section \<open>The claims on construction, assembly, stepping and scaling\<close>

text \<open>C1. For an assembled model, any initial state \<open>x0\<close> and any input sequence
  \<open>u0, u1, ..., un\<close>, the direct-form stepper (\<open>remove_predictor = False\<close>) started from \<open>x0\<close>
  and the predictor-removed stepper (\<open>remove_predictor = True\<close>) started from the transformed
  state \<open>h0 = x0 - B_predictor u0\<close> both return, and return the same outputs \<open>y1, ..., yn\<close>.
  The entries are exact reals, so the outputs are equal, which is within any tolerance.\<close>

theorem predictor_removal_equivalence:
  "\<exists>Bp ys.
     B_predictor (assemble_ss lu bl (self \<lparr> remove_predictor := True \<rparr>)) = Some Bp
     \<and> simulate (assemble_ss lu bl (self \<lparr> remove_predictor := False \<rparr>)) False x0 (u0 # us)
         = Inr ys
     \<and> length ys = length us
     \<and> simulate (assemble_ss lu bl (self \<lparr> remove_predictor := True \<rparr>)) False
         (vsub x0 (dotv Bp u0)) (u0 # us) = Inr ys"
proof -
  let ?md = "assemble_ss lu bl (self \<lparr> remove_predictor := False \<rparr>)"
  let ?mp = "assemble_ss lu bl (self \<lparr> remove_predictor := True \<rparr>)"
  let ?s = "\<lparr> ss_A = assemble_A lu bl self, ss_B = assemble_B lu bl self,
             ss_C = assemble_C bl self, ss_D = assemble_D bl self, ss_dt = dt self \<rparr>"
  have d: "SS ?md = Some ?s"
    by (simp add: assemble_ss_direct assemble_parts_remove_predictor)
  have nd: "\<not> remove_predictor ?md"
    by (simp add: assemble_ss_frame)
  have p: "SS ?mp = Some \<lparr> ss_A = ss_A ?s, ss_B = dot (ss_A ?s) (ss_B ?s), ss_C = ss_C ?s,
                           ss_D = madd (dot (ss_C ?s) (ss_B ?s)) (ss_D ?s), ss_dt = dt self \<rparr>"
    and bp: "B_predictor ?mp = Some (ss_B ?s)"
    using assemble_ss_predictor[of "self \<lparr> remove_predictor := True \<rparr>" lu bl]
    by (simp_all add: assemble_parts_remove_predictor)
  have rp: "remove_predictor ?mp"
    by (simp add: assemble_ss_frame)
  have sh: "ncols (ss_D ?s) = ncols (ss_B ?s)"
    by (simp add: assemble_D_shape assemble_B_shape)
  obtain ys where ys: "simulate ?md False x0 (u0 # us) = Inr ys" "length ys = length (u0 # us) - 1"
    using simulate_direct_ok[OF d nd] by blast
  have "simulate ?mp False (vsub x0 (dotv (ss_B ?s) u0)) (u0 # us) = simulate ?md False x0 (u0 # us)"
    by (rule simulate_equiv[OF d nd p rp bp sh])
  then show ?thesis
    using ys bp by simp
qed

text \<open>C2. For a model built with nonzero scaling factors (length, speed, density) and
  assembled, \<open>nondimss\<close> followed by \<open>dimss\<close> raises nothing and gives back the model it
  started from: B, C, D and the time step have their original values.\<close>

theorem nondimss_dimss_roundtrip:
  assumes "Dynamic_init ms dt0 order rp (Some (l, u, rho)) sp = Inr self0"
    and "l \<noteq> 0" "u \<noteq> 0" "rho \<noteq> 0"
  shows "fst (nondimss (assemble_ss lu bl self0)) = None
     \<and> dimss (snd (nondimss (assemble_ss lu bl self0))) = (None, assemble_ss lu bl self0)"
proof -
  obtain s where s: "SS (assemble_ss lu bl self0) = Some s"
    using assemble_ss_SS by blast
  note sc = init_scaling[OF assms(1)]
  show ?thesis
    by (rule dimss_nondimss[OF s]) (simp_all add: assms(2-4) assemble_ss_frame sc)
qed

theorem nondimss_dimss_roundtrip_witness:
  "fst (nondimss (assemble_ss ex_lu_solve ex_blocks (ex_model 2 True))) = None
     \<and> dimss (snd (nondimss (assemble_ss ex_lu_solve ex_blocks (ex_model 2 True))))
         = (None, assemble_ss ex_lu_solve ex_blocks (ex_model 2 True))"
  using nondimss_dimss_roundtrip[of ex_MS "0.05" 2 True 2 5 1 True "ex_model 2 True"
          ex_lu_solve ex_blocks]
    ex_model_init[of 2 True]
  by simp

text \<open>C3. Construction succeeds for integration order 1 or 2 (and a nonzero reference
  speed). With \<open>K\<close>, \<open>K_star\<close> and \<open>Kzeta\<close> the sums of the panel and vertex counts, the state
  dimension is \<open>2K + K_star\<close> for order 1 and \<open>3K + K_star\<close> for order 2, the output dimension
  is \<open>3 Kzeta\<close> and the input dimension \<open>9 Kzeta\<close>; the assembled A is \<open>Nx\<close> by \<open>Nx\<close>, B is \<open>Nx\<close> by
  \<open>Nu\<close>, C is \<open>Ny\<close> by \<open>Nx\<close> and D is \<open>Ny\<close> by \<open>Nu\<close>.\<close>

theorem assembled_dimensions:
  assumes "order = 1 \<or> order = 2"
    and "case sd of None \<Rightarrow> True | Some (l, u, rho) \<Rightarrow> u \<noteq> 0"
  shows "\<exists>self s.
      Dynamic_init ms dt0 order rp sd sp = Inr self
    \<and> K self = sum_list (KK ms) \<and> K_star self = sum_list (KK_star ms)
    \<and> Kzeta self = sum_list (KKzeta ms)
    \<and> Nx self = (if order = 1 then 2 * K self + K_star self else 3 * K self + K_star self)
    \<and> Ny self = 3 * Kzeta self \<and> Nu self = 9 * Kzeta self
    \<and> SS (assemble_ss lu bl self) = Some s
    \<and> nrows (ss_A s) = Nx self \<and> ncols (ss_A s) = Nx self
    \<and> nrows (ss_B s) = Nx self \<and> ncols (ss_B s) = Nu self
    \<and> nrows (ss_C s) = Ny self \<and> ncols (ss_C s) = Nx self
    \<and> nrows (ss_D s) = Ny self \<and> ncols (ss_D s) = Nu self"
proof -
  obtain self where i: "Dynamic_init ms dt0 order rp sd sp = Inr self"
    using init_ok[OF assms] by blast
  show ?thesis
    using i init_sizes[OF i] assemble_ss_shapes[of lu bl self] by auto
qed

theorem assembled_dimensions_witness:
  "\<exists>self s.
      Dynamic_init ex_MS 0.05 2 True (Some (2, 5, 1)) True = Inr self
    \<and> K self = 1 \<and> K_star self = 1 \<and> Kzeta self = 4
    \<and> Nx self = 4 \<and> Ny self = 12 \<and> Nu self = 36
    \<and> SS (assemble_ss ex_lu_solve ex_blocks self) = Some s
    \<and> nrows (ss_A s) = Nx self \<and> ncols (ss_A s) = Nx self
    \<and> nrows (ss_B s) = Nx self \<and> ncols (ss_B s) = Nu self
    \<and> nrows (ss_C s) = Ny self \<and> ncols (ss_C s) = Nx self
    \<and> nrows (ss_D s) = Ny self \<and> ncols (ss_D s) = Nu self"
proof -
  obtain self s where h:
    "Dynamic_init ex_MS 0.05 2 True (Some (2, 5, 1)) True = Inr self"
    "K self = sum_list (KK ex_MS)" "K_star self = sum_list (KK_star ex_MS)"
    "Kzeta self = sum_list (KKzeta ex_MS)"
    "Nx self = (if (2::int) = 1 then 2 * K self + K_star self else 3 * K self + K_star self)"
    "Ny self = 3 * Kzeta self" "Nu self = 9 * Kzeta self"
    "SS (assemble_ss ex_lu_solve ex_blocks self) = Some s"
    "nrows (ss_A s) = Nx self" "ncols (ss_A s) = Nx self"
    "nrows (ss_B s) = Nx self" "ncols (ss_B s) = Nu self"
    "nrows (ss_C s) = Ny self" "ncols (ss_C s) = Nx self"
    "nrows (ss_D s) = Ny self" "ncols (ss_D s) = Nu self"
    using assembled_dimensions[of 2 "Some (2, 5, 1)" ex_MS "0.05" True True ex_lu_solve ex_blocks]
    by auto
  have "K self = 1" "K_star self = 1" "Kzeta self = 4"
    using h(2-4) by (simp_all add: ex_MS_def)
  then show ?thesis
    using h by (intro exI[of _ self] exI[of _ s]) simp
qed

text \<open>C4, as the code has it. With second-order differencing the rows of the
  circulation derivative are \<open>1.5\<close> times the rows that give the bound circulation of step
  \<open>n+1\<close>, \<open>-2\<close> times the bound circulation of step \<open>n\<close> and \<open>0.5\<close> times the delayed bound
  circulation of step \<open>n-1\<close>, and the delayed-circulation rows are the identity on the bound
  circulation; the state has \<open>3K + K_star\<close> entries. With first-order differencing the
  derivative rows are the rows of step \<open>n+1\<close> minus the identity, and there is no delayed
  block: the state has \<open>2K + K_star\<close> entries.\<close>

theorem difference_block:
  assumes "Dynamic_init ms dt0 order rp sd sp = Inr self"
    and "SS (assemble_ss lu bl self) = Some s"
    and "i < K self"
  shows
    "(order = 2 \<longrightarrow>
        nrows (ss_A s) = 3 * K self + K_star self
      \<and> (\<forall>j. j < K self \<longrightarrow>
            elem (ss_A s) (K self + K_star self + i) j
              = 1.5 * elem (AinvAWCgamma lu bl) i j + (if j = i then - 2 else 0)
          \<and> elem (ss_A s) (K self + K_star self + i) (2 * K self + K_star self + j)
              = (if j = i then 0.5 else 0))
      \<and> (\<forall>j. j < K_star self \<longrightarrow>
            elem (ss_A s) (K self + K_star self + i) (K self + j)
              = 1.5 * elem (AinvAWCgammaW lu bl) i j)
      \<and> (\<forall>j. elem (ss_A s) (2 * K self + K_star self + i) j = (if j = i then 1 else 0)))
   \<and> (order = 1 \<longrightarrow>
        nrows (ss_A s) = 2 * K self + K_star self
      \<and> (\<forall>j. j < K self \<longrightarrow>
            elem (ss_A s) (K self + K_star self + i) j
              = elem (AinvAWCgamma lu bl) i j + (if j = i then - 1 else 0))
      \<and> (\<forall>j. j < K_star self \<longrightarrow>
            elem (ss_A s) (K self + K_star self + i) (K self + j)
              = elem (AinvAWCgammaW lu bl) i j))
   \<and> (\<forall>j. j < K self \<longrightarrow> elem (ss_A s) i j = elem (AinvAWCgamma lu bl) i j)
   \<and> (\<forall>j. j < K_star self \<longrightarrow> elem (ss_A s) i (K self + j) = elem (AinvAWCgammaW lu bl) i j)"
proof -
  note sz = init_sizes[OF assms(1)]
  have a: "ss_A s = assemble_A lu bl self"
    by (rule assemble_ss_A[OF assms(2)])
  have o: "integr_order self = order" using sz by simp
  have two: "order = 2 \<Longrightarrow> ?thesis"
    using sz A_order2[where self=self and i=i and lu=lu and bl=bl]
      A_bound_rows[where self=self and i=i and lu=lu and bl=bl] assms(3)
    by (simp add: a assemble_A_shape o)
  have one: "order = 1 \<Longrightarrow> ?thesis"
    using sz A_order1[where self=self and i=i and lu=lu and bl=bl]
      A_bound_rows[where self=self and i=i and lu=lu and bl=bl] assms(3)
    by (simp add: a assemble_A_shape o)
  show ?thesis using sz one two by blast
qed

theorem difference_block_witness:
  "Dynamic_init ex_MS 0.05 2 False (Some (2, 5, 1)) True = Inr (ex_model 2 False)
   \<and> K (ex_model 2 False) = 1 \<and> K_star (ex_model 2 False) = 1
   \<and> nrows (ss_A (the (SS (assemble_ss ex_lu_solve ex_blocks (ex_model 2 False))))) = 4
   \<and> elem (ss_A (the (SS (assemble_ss ex_lu_solve ex_blocks (ex_model 2 False))))) 2 0
       = 1.5 * elem (AinvAWCgamma ex_lu_solve ex_blocks) 0 0 - 2
   \<and> elem (ss_A (the (SS (assemble_ss ex_lu_solve ex_blocks (ex_model 2 False))))) 2 1
       = 1.5 * elem (AinvAWCgammaW ex_lu_solve ex_blocks) 0 0
   \<and> elem (ss_A (the (SS (assemble_ss ex_lu_solve ex_blocks (ex_model 2 False))))) 2 3 = 0.5
   \<and> elem (ss_A (the (SS (assemble_ss ex_lu_solve ex_blocks (ex_model 2 False))))) 3 0 = 1"
proof -
  have i: "Dynamic_init ex_MS 0.05 2 False (Some (2, 5, 1)) True = Inr (ex_model 2 False)"
    by (rule ex_model_init) simp
  obtain s where s: "SS (assemble_ss ex_lu_solve ex_blocks (ex_model 2 False)) = Some s"
    using assemble_ss_SS by blast
  have k: "K (ex_model 2 False) = 1" "K_star (ex_model 2 False) = 1"
    by (simp_all add: ex_model_def)
  have z: "(0::nat) < K (ex_model 2 False)"
    by (simp add: k)
  show ?thesis
    using difference_block[OF i s z] i s k by (simp add: numeral_2_eq_2 numeral_3_eq_3)
qed

text \<open>C4, as the claim words it, gives \<open>-2\<close> to the contribution of step \<open>n+1\<close> and \<open>1.5\<close> to
  that of step \<open>n\<close>. On the small lattice the bound circulation of step \<open>n+1\<close> depends on that
  of step \<open>n\<close> with coefficient \<open>-1\<close>, so the claim's entry of the derivative row would be
  \<open>-2 * (-1) + 1.5 = 7/2\<close>; the assembled entry is \<open>1.5 * (-1) - 2 = -7/2\<close>.\<close>

theorem difference_coefficients_counterexample:
  "elem (AinvAWCgamma ex_lu_solve ex_blocks) 0 0 = - 1
   \<and> elem (ss_A (the (SS (assemble_ss ex_lu_solve ex_blocks (ex_model 2 False))))) 2 0 = - 7 / 2
   \<and> elem (ss_A (the (SS (assemble_ss ex_lu_solve ex_blocks (ex_model 2 False))))) 2 0
       \<noteq> - 2 * elem (AinvAWCgamma ex_lu_solve ex_blocks) 0 0 + 1.5"
proof -
  have p: "elem (AinvAWCgamma ex_lu_solve ex_blocks) 0 0 = - 1"
    by (simp add: AinvAWCgamma_def ex_lu_solve_def ex_blocks_def mneg_def dot_def sum_upto_def)
  obtain s where s: "SS (assemble_ss ex_lu_solve ex_blocks (ex_model 2 False)) = Some s"
    using assemble_ss_SS by blast
  have a: "ss_A s = assemble_A ex_lu_solve ex_blocks (ex_model 2 False)"
    by (rule assemble_ss_A[OF s])
  have io: "integr_order (ex_model 2 False) = 2"
    and k: "K (ex_model 2 False) = 1" "K_star (ex_model 2 False) = 1"
    by (simp_all add: ex_model_def)
  have z: "(0::nat) < K (ex_model 2 False)"
    by (simp add: k)
  have "elem (assemble_A ex_lu_solve ex_blocks (ex_model 2 False)) 2 0
          = 1.5 * elem (AinvAWCgamma ex_lu_solve ex_blocks) 0 0 - 2"
    using A_order2(1)[OF io z z, of ex_lu_solve ex_blocks] k
    by (simp add: numeral_2_eq_2)
  then show ?thesis
    using p s a by simp
qed

text \<open>C8. An omitted next-step input is replaced by the current input: the step is the
  step with \<open>u_n1 = u_n\<close>, and on an assembled model it returns a state and an output.\<close>

theorem solve_step_default_input:
  "solve_step self x u None ts = solve_step self x u (Some u) ts
   \<and> (\<exists>x1 y1. solve_step (assemble_ss lu bl self) x u None ts = Inr (x1, y1))"
  using solve_step_default[of self x u ts] solve_step_assembled[of lu bl self x u None ts]
  by simp

text \<open>C10. \<open>nondimss\<close> and \<open>dimss\<close> change nothing of the model but its state-space system,
  and in it not the matrix A; the stored \<open>B_predictor\<close> of a predictor-removed model is the
  B matrix as assembled, before and after scaling.\<close>

theorem scaling_frame:
  "B_predictor (snd (nondimss self)) = B_predictor self
   \<and> map_option ss_A (SS (snd (nondimss self))) = map_option ss_A (SS self)
   \<and> snd (nondimss self) \<lparr> SS := SS self \<rparr> = self
   \<and> B_predictor (snd (dimss self)) = B_predictor self
   \<and> map_option ss_A (SS (snd (dimss self))) = map_option ss_A (SS self)
   \<and> snd (dimss self) \<lparr> SS := SS self \<rparr> = self
   \<and> B_predictor (snd (nondimss (assemble_ss lu bl (self \<lparr> remove_predictor := True \<rparr>))))
       = Some (assemble_B lu bl self)
   \<and> B_predictor (snd (dimss (assemble_ss lu bl (self \<lparr> remove_predictor := True \<rparr>))))
       = Some (assemble_B lu bl self)"
  using assemble_ss_predictor[of "self \<lparr> remove_predictor := True \<rparr>" lu bl]
  by (simp add: nondimss_frame dimss_frame assemble_parts_remove_predictor)

section \<open>Frequency-limited balancing\<close>

lemma balfreq_guards:
  "wv_low = None \<or> wv_high = None \<Longrightarrow>
     balfreq lib kv_low kv_high wv_low wv_high self
       = (Some (NameError ''Automatic weights under development''), self)"
  "wv_low \<noteq> None \<Longrightarrow> wv_high \<noteq> None \<Longrightarrow> remove_predictor self \<Longrightarrow>
     balfreq lib kv_low kv_high wv_low wv_high self
       = (Some (NameError ''Case without predictor Not yet implemented!''), self)"
  by (auto simp add: balfreq_def)

lemma balfreq_step_not_order2:
  "integr_order self \<noteq> 2 \<Longrightarrow> \<exists>e. balfreq_step lib self s zv wv Nk_low kk st = Inl e"
  by (cases st) (auto simp add: balfreq_step_def Let_def split: sum.splits option.splits)

lemma balfreq_step_sparse:
  "use_sparse self \<Longrightarrow> \<exists>e. balfreq_step lib self s zv wv Nk_low kk st = Inl e"
  by (cases st) (auto simp add: balfreq_step_def Let_def split: sum.splits option.splits)

lemma balfreq_step_order1:
  assumes "integr_order self = 1" "\<not> use_sparse self" "kk < length wv"
    and "get_Cw_cpx (MS self) (K self) (K_star self) (zv ! kk) = Inr Cw"
    and "linalg_inv lib (balfreq_kernel self s Cw (zv ! kk)) = Some Kern"
  shows "balfreq_step lib self s zv wv Nk_low kk st = Inl (NameError ''name bp0 is not defined'')"
  using assms by (cases st) (simp add: balfreq_step_def Let_def balfreq_kernel_def)

lemma balfreq_step_sparse_error:
  assumes "use_sparse self" "kk < length wv"
    and "get_Cw_cpx (MS self) (K self) (K_star self) (zv ! kk) = Inr Cw"
    and "linalg_inv lib (balfreq_kernel self s Cw (zv ! kk)) = Some Kern"
  shows "balfreq_step lib self s zv wv Nk_low kk st = Inl TypeError"
  using assms by (cases st) (simp add: balfreq_step_def Let_def balfreq_kernel_def)

lemma balfreq_step_singular:
  assumes "kk < length wv"
    and "get_Cw_cpx (MS self) (K self) (K_star self) (zv ! kk) = Inr Cw"
    and "linalg_inv lib (balfreq_kernel self s Cw (zv ! kk)) = None"
  shows "balfreq_step lib self s zv wv Nk_low kk st = Inl LinAlgError"
  using assms by (cases st) (simp add: balfreq_step_def Let_def balfreq_kernel_def)

lemma balfreq_first_step:
  assumes "\<not> remove_predictor self" "SS self = Some s"
    and "wv_low = Some wl" "wv_high = Some wh"
    and "kv_low @ kv_high = k0 # ks"
    and "balfreq_step lib self s
           (map (\<lambda>x. Complex (cos x) (sin x)) (map (\<lambda>k. k * ss_dt s) (kv_low @ kv_high)))
           (map (\<lambda>w. w * ss_dt s) (wl @ wh)) (length kv_low) 0
           (zeros (states s) (outputs s),
            zeros (states s) (2 * inputs s * length (kv_low @ kv_high)),
            zeros (states s) (2 * outputs s * length kv_low)) = Inl e"
  shows "balfreq lib kv_low kv_high wv_low wv_high self = (Some e, self)"
proof -
  let ?n = "length (map (\<lambda>k. k * ss_dt s) (kv_low @ kv_high))"
  have n: "?n = Suc (length ks)"
    using assms(5) by simp
  have u: "[0..<?n] = 0 # [1..<?n]"
    unfolding n by (simp add: upt_conv_Cons del: upt_Suc)
  show ?thesis
    using assms(1,2,3,4,6) u by (simp add: balfreq_def Let_def del: upt_Suc)
qed

lemma balfreq_not_order2:
  assumes "integr_order self \<noteq> 2" "kv_low @ kv_high \<noteq> []"
  shows "fst (balfreq lib kv_low kv_high wv_low wv_high self) \<noteq> None
       \<and> snd (balfreq lib kv_low kv_high wv_low wv_high self) = self"
proof (cases "wv_low = None \<or> wv_high = None \<or> remove_predictor self \<or> SS self = None")
  case True
  then show ?thesis by (auto simp add: balfreq_def)
next
  case False
  then obtain s wl wh where s: "SS self = Some s" "wv_low = Some wl" "wv_high = Some wh"
    by auto
  obtain k0 ks where k: "kv_low @ kv_high = k0 # ks"
    using assms(2) by (cases "kv_low @ kv_high") auto
  obtain e where "balfreq_step lib self s
       (map (\<lambda>x. Complex (cos x) (sin x)) (map (\<lambda>k. k * ss_dt s) (kv_low @ kv_high)))
       (map (\<lambda>w. w * ss_dt s) (wl @ wh)) (length kv_low) 0
       (zeros (states s) (outputs s),
        zeros (states s) (2 * inputs s * length (kv_low @ kv_high)),
        zeros (states s) (2 * outputs s * length kv_low)) = Inl e"
    using balfreq_step_not_order2[OF assms(1)] by blast
  then have "balfreq lib kv_low kv_high wv_low wv_high self = (Some e, self)"
    using balfreq_first_step[OF _ s k] False by blast
  then show ?thesis by simp
qed

lemma balfreq_first_error:
  assumes "\<not> remove_predictor self" "SS self = Some s"
    and "wv_low = Some wl" "wv_high = Some wh" "wl @ wh \<noteq> []"
    and "kv_low @ kv_high = k0 # ks"
    and "\<And>zv wv Nk_low st. 0 < length wv \<Longrightarrow>
           zv ! 0 = Complex (cos (k0 * ss_dt s)) (sin (k0 * ss_dt s)) \<Longrightarrow>
           balfreq_step lib self s zv wv Nk_low 0 st = Inl e"
  shows "balfreq lib kv_low kv_high wv_low wv_high self = (Some e, self)"
proof (rule balfreq_first_step[OF assms(1,2,3,4,6)])
  let ?zv = "map (\<lambda>x. Complex (cos x) (sin x)) (map (\<lambda>k. k * ss_dt s) (kv_low @ kv_high))"
  let ?wv = "map (\<lambda>w. w * ss_dt s) (wl @ wh)"
  have z: "?zv ! 0 = Complex (cos (k0 * ss_dt s)) (sin (k0 * ss_dt s))"
    using assms(6) by simp
  have w: "0 < length ?wv"
    using assms(5) by (cases wl) auto
  show "balfreq_step lib self s ?zv ?wv (length kv_low) 0
       (zeros (states s) (outputs s),
        zeros (states s) (2 * inputs s * length (kv_low @ kv_high)),
        zeros (states s) (2 * outputs s * length kv_low)) = Inl e"
    by (rule assms(7)[OF w z])
qed

lemma balfreq_order1:
  assumes "integr_order self = 1" "\<not> use_sparse self" "\<not> remove_predictor self"
    and "SS self = Some s"
    and "wv_low = Some wl" "wv_high = Some wh" "wl @ wh \<noteq> []"
    and "kv_low @ kv_high = k0 # ks"
    and "get_Cw_cpx (MS self) (K self) (K_star self)
           (Complex (cos (k0 * ss_dt s)) (sin (k0 * ss_dt s))) = Inr Cw"
    and "linalg_inv lib (balfreq_kernel self s Cw
           (Complex (cos (k0 * ss_dt s)) (sin (k0 * ss_dt s)))) = Some Kern"
  shows "balfreq lib kv_low kv_high wv_low wv_high self
           = (Some (NameError ''name bp0 is not defined''), self)"
proof (rule balfreq_first_error[OF assms(3,4,5,6,7,8)])
  fix zv :: "complex list" and wv :: "real list" and Nk_low st
  assume "0 < length wv" "zv ! 0 = Complex (cos (k0 * ss_dt s)) (sin (k0 * ss_dt s))"
  then show "balfreq_step lib self s zv wv Nk_low 0 st = Inl (NameError ''name bp0 is not defined'')"
    using balfreq_step_order1[OF assms(1,2), of 0 wv zv Cw lib s Kern] assms(9,10) by simp
qed

lemma balfreq_sparse:
  assumes "use_sparse self" "\<not> remove_predictor self"
    and "SS self = Some s"
    and "wv_low = Some wl" "wv_high = Some wh" "wl @ wh \<noteq> []"
    and "kv_low @ kv_high = k0 # ks"
    and "get_Cw_cpx (MS self) (K self) (K_star self)
           (Complex (cos (k0 * ss_dt s)) (sin (k0 * ss_dt s))) = Inr Cw"
    and "linalg_inv lib (balfreq_kernel self s Cw
           (Complex (cos (k0 * ss_dt s)) (sin (k0 * ss_dt s)))) = Some Kern"
  shows "balfreq lib kv_low kv_high wv_low wv_high self = (Some TypeError, self)"
proof (rule balfreq_first_error[OF assms(2,3,4,5,6,7)])
  fix zv :: "complex list" and wv :: "real list" and Nk_low st
  assume "0 < length wv" "zv ! 0 = Complex (cos (k0 * ss_dt s)) (sin (k0 * ss_dt s))"
  then show "balfreq_step lib self s zv wv Nk_low 0 st = Inl TypeError"
    using balfreq_step_sparse_error[OF assms(1), of 0 wv zv Cw lib s Kern] assms(8,9) by simp
qed

lemma balfreq_singular:
  assumes "\<not> remove_predictor self"
    and "SS self = Some s"
    and "wv_low = Some wl" "wv_high = Some wh" "wl @ wh \<noteq> []"
    and "kv_low @ kv_high = k0 # ks"
    and "get_Cw_cpx (MS self) (K self) (K_star self)
           (Complex (cos (k0 * ss_dt s)) (sin (k0 * ss_dt s))) = Inr Cw"
    and "linalg_inv lib (balfreq_kernel self s Cw
           (Complex (cos (k0 * ss_dt s)) (sin (k0 * ss_dt s)))) = None"
  shows "balfreq lib kv_low kv_high wv_low wv_high self = (Some LinAlgError, self)"
proof (rule balfreq_first_error[OF assms(1,2,3,4,5,6)])
  fix zv :: "complex list" and wv :: "real list" and Nk_low st
  assume "0 < length wv" "zv ! 0 = Complex (cos (k0 * ss_dt s)) (sin (k0 * ss_dt s))"
  then show "balfreq_step lib self s zv wv Nk_low 0 st = Inl LinAlgError"
    using balfreq_step_singular[of 0 wv self zv Cw lib s] assms(7,8) by simp
qed

lemma balfreq_project_ok:
  assumes "fst (balfreq_project lib s zc zo self) = None"
  shows "\<exists>U sv Vh.
      scalg_svd lib (dot (transpose_mat zo) zc) = Some (U, sv, Vh)
    \<and> snd (balfreq_project lib s zc zo self)
        = self \<lparr> Zc := Some zc, Zo := Some zo,
                 SSb := Some \<lparr> ssb_A = fl_dot (balancing_Ti zo sv U)
                                          (fl_dot (fl_mat (ss_A s)) (balancing_T zc sv Vh)),
                               ssb_B = fl_dot (balancing_Ti zo sv U) (fl_mat (ss_B s)),
                               ssb_C = fl_dot (fl_mat (ss_C s)) (balancing_T zc sv Vh),
                               ssb_D = ss_D s, ssb_dt = ss_dt s \<rparr>,
                 T := Some (balancing_T zc sv Vh), gv := Some sv \<rparr>"
  using assms
  by (auto simp add: balfreq_project_def Let_def balancing_T_def balancing_Ti_def
        split: option.splits)

lemma balfreq_completes:
  assumes "fst (balfreq lib kv_low kv_high wv_low wv_high self) = None"
  shows "\<exists>s zc zo. SS self = Some s
     \<and> balfreq lib kv_low kv_high wv_low wv_high self = balfreq_project lib s zc zo self"
  using assms
  by (auto simp add: balfreq_def Let_def split: if_splits option.splits sum.splits)

lemma assemble_ss_fields:
  "MS (assemble_ss lu bl self) = MS self" "K (assemble_ss lu bl self) = K self"
  "K_star (assemble_ss lu bl self) = K_star self"
  "integr_order (assemble_ss lu bl self) = integr_order self"
  "use_sparse (assemble_ss lu bl self) = use_sparse self"
  by (simp_all add: assemble_ss_def Let_def SSconv_def)

lemma ex_dense_init:
  "order = 1 \<or> order = 2 \<Longrightarrow>
   Dynamic_init ex_MS 0.05 order False (Some (2, 5, 1)) False = Inr (ex_dense order)"
  by (auto simp add: Dynamic_init_def ex_MS_def ex_model_def ex_dense_def Let_def
        power2_eq_square)

lemma ex_Cw:
  "get_Cw_cpx ex_MS (Suc 0) (Suc 0) z
     = Inr (Mat 1 1 (\<lambda>i j. if i = 0 \<and> j = 0 then inverse z else 0))"
  by (simp add: get_Cw_cpx_def ex_MS_def csc_matrix_def py_range_def Let_def)

lemma ex_kernel:
  assumes "integr_order self0 = 1 \<or> integr_order self0 = 2" "K self0 = 1" "K_star self0 = 1"
    and "K self = 1" "K_star self = 1"
    and "ss_A s = assemble_A ex_lu_solve ex_blocks self0"
  shows "elem (balfreq_kernel self s (Mat 1 1 (\<lambda>i j. if i = 0 \<and> j = 0 then inverse z else 0)) z)
           0 0 = z + 1"
  using assms
  by (auto simp add: balfreq_kernel_def msub_def smul_def cplx_def eye_def block_def
        transpose_mat_def dot_def sum_upto_def assemble_A_def Let_def ex_blocks_def
        ex_lu_solve_def mneg_def)

lemma ex_kernel_singular:
  assumes "integr_order self0 = 1 \<or> integr_order self0 = 2" "K self0 = 1" "K_star self0 = 1"
    and "K self = 1" "K_star self = 1"
    and "ss_A s = assemble_A ex_lu_solve ex_blocks_singular self0"
  shows "elem (balfreq_kernel self s (Mat 1 1 (\<lambda>i j. if i = 0 \<and> j = 0 then inverse z else 0)) z)
           0 0 = z - 1"
  using assms
  by (auto simp add: balfreq_kernel_def msub_def smul_def cplx_def eye_def block_def
        transpose_mat_def dot_def sum_upto_def assemble_A_def Let_def ex_blocks_def
        ex_blocks_singular_def ex_lu_solve_def mneg_def)

lemma ex_B_zero: "elem (assemble_B ex_lu_solve ex_blocks self) i j = 0"
  by (simp add: assemble_B_def Let_def ex_blocks_def ex_lu_solve_def hstack_def mneg_def
        zeros_def smul_def)

lemma sum_upto_zero: "(\<And>k. f k = 0) \<Longrightarrow> sum_upto n f = 0"
  by (simp add: sum_upto_sum)

lemma dot_zero_right:
  "(\<And>i j. elem b i j = 0) \<Longrightarrow> elem (dot a b) i j = 0"
  by (simp add: dot_def sum_upto_zero)

lemma balfreq_step_shapes:
  assumes "balfreq_step lib self s zv wv Nk_low kk (q0, zc0, zo0) = Inr (q, zc, zo)"
  shows "nrows zc = nrows zc0" "ncols zc = ncols zc0" "nrows zo = nrows zo0" "ncols zo = ncols zo0"
  using assms
  by (auto simp add: balfreq_step_def Let_def split: if_splits sum.splits option.splits)

lemma balfreq_step_Zc_zero:
  assumes "balfreq_step lib self s zv wv Nk_low kk (q0, zc0, zo0) = Inr (q, zc, zo)"
    and "\<And>i j. elem (ss_B s) i j = 0" "\<And>i j. elem zc0 i j = 0"
  shows "elem zc i j = 0"
  using assms
  by (auto simp add: balfreq_step_def Let_def real_mat_def imag_mat_def vstack_def dot_def
        cplx_def block_def sum_upto_zero
        split: if_splits sum.splits option.splits)

lemma ex_step_order2:
  assumes "integr_order self0 = 2" "K self0 = 1" "K_star self0 = 1"
    and "MS self = ex_MS" "K self = 1" "K_star self = 1" "integr_order self = 2"
    and "\<not> use_sparse self"
    and "ss_A s = assemble_A ex_lu_solve ex_blocks self0"
    and "0 < length wv"
  shows "\<exists>st. balfreq_step ex_linalg self s [1] wv 1 0 st0 = Inr st"
  using assms
  by (cases st0)
    (simp add: balfreq_step_def Let_def ex_Cw ex_linalg_def
      msub_def smul_def cplx_def eye_def block_def transpose_mat_def dot_def sum_upto_def
      assemble_A_def ex_blocks_def ex_lu_solve_def mneg_def)

lemma zero_svd_zero:
  assumes "\<And>i j. elem m i j = 0"
  shows "zero_svd m = Some (Mat (nrows m) (min (nrows m) (ncols m)) (\<lambda>i j. if i = j then 1 else 0),
                            Vec (min (nrows m) (ncols m)) (\<lambda>i. 0),
                            Mat (min (nrows m) (ncols m)) (ncols m) (\<lambda>i j. if i = j then 1 else 0))"
  using assms by (simp add: zero_svd_def is_zero_mat_def list_all_iff Let_def)

text \<open>Where the singular values are positive the projection is the exact one; a zero
  singular value makes it not finite.\<close>

lemma fl_sum_Finite: "fl_sum n (\<lambda>k. Finite (f k)) = Finite (sum_upto n f)"
proof -
  have "foldr (\<lambda>k acc. fl_add (Finite (f k)) acc) xs (Finite 0) = Finite (sum_list (map f xs))"
    for xs :: "nat list"
    by (induction xs) simp_all
  then show ?thesis
    by (simp add: fl_sum_def sum_upto_def)
qed

lemma fl_dot_Finite: "fl_dot (fl_mat a) (fl_mat b) = fl_mat (dot a b)"
  by (simp add: fl_dot_def fl_mat_def dot_def fl_sum_Finite)

lemma balancing_T_Finite:
  assumes "0 < vat sv j"
  shows "elem (balancing_T zc sv Vh) i j
           = Finite (elem (dot zc (mul_cols (transpose_mat Vh)
                                    (Vec (vlen sv) (\<lambda>i. vat sv i powr (- 0.5))))) i j)"
  using assms
  by (simp add: balancing_T_def fl_dot_def fl_mat_def fl_mul_cols_def fl_rsqrt_def dot_def
        mul_cols_def transpose_mat_def fl_sum_Finite)

lemma balancing_Ti_Finite:
  assumes "0 < vat sv i"
  shows "elem (balancing_Ti zo sv U) i j
           = Finite (elem (dot (transpose_mat (mul_cols U
                                  (Vec (vlen sv) (\<lambda>i. vat sv i powr (- 0.5)))))
                               (transpose_mat zo)) i j)"
  using assms
  by (simp add: balancing_Ti_def fl_dot_def fl_mat_def fl_mul_cols_def fl_rsqrt_def dot_def
        mul_cols_def transpose_mat_def fl_sum_Finite)

lemma fl_mul_NonFinite [simp]: "fl_mul x NonFinite = NonFinite"
  by (cases x) simp_all

lemma fl_sum_NonFinite: "0 < n \<Longrightarrow> fl_sum n (\<lambda>k. NonFinite) = NonFinite"
  by (simp add: fl_sum_def upt_conv_Cons del: upt_Suc)

lemma fl_dot_NonFinite:
  "0 < ncols a \<Longrightarrow>
     fl_dot a (Mat m n (\<lambda>i j. NonFinite)) = Mat (nrows a) n (\<lambda>i j. NonFinite)"
  by (simp add: fl_dot_def fl_sum_NonFinite)

lemma balancing_T_zero:
  "0 < ncols zc \<Longrightarrow>
     balancing_T zc (Vec n (\<lambda>i. 0)) Vh = Mat (nrows zc) (nrows Vh) (\<lambda>i j. NonFinite)"
  by (simp add: balancing_T_def fl_dot_def fl_mul_cols_def fl_mat_def fl_rsqrt_def
        transpose_mat_def fl_sum_NonFinite)

lemma balancing_Ti_shape:
  "nrows (balancing_Ti zo sv U) = ncols U" "ncols (balancing_Ti zo sv U) = nrows zo"
  by (simp_all add: balancing_Ti_def fl_dot_def fl_mul_cols_def fl_mat_def transpose_mat_def)

lemma balancing_T_shape:
  "nrows (balancing_T zc sv Vh) = nrows zc" "ncols (balancing_T zc sv Vh) = nrows Vh"
  by (simp_all add: balancing_T_def fl_dot_def fl_mul_cols_def fl_mat_def transpose_mat_def)

text \<open>C6. When \<open>balfreq\<close> completes, the balanced model it stores is
  \<open>A_r = Ti A T\<close>, \<open>B_r = Ti B\<close>, \<open>C_r = C T\<close> with the D matrix and the time step of the full
  model, where \<open>T\<close> and \<open>Ti\<close> are built from the factors and all the singular triplets that
  the decomposition of \<open>Zo^T Zc\<close> returned; \<open>gv\<close> is the whole vector of singular
  values, the order of the balanced model is the number of singular vectors returned, and
  the full model is not changed.\<close>

theorem balfreq_reduced_model:
  assumes "fst (balfreq lib kv_low kv_high wv_low wv_high self) = None"
  shows "\<exists>s zc zo U sv Vh r.
      SS self = Some s
    \<and> Zc (snd (balfreq lib kv_low kv_high wv_low wv_high self)) = Some zc
    \<and> Zo (snd (balfreq lib kv_low kv_high wv_low wv_high self)) = Some zo
    \<and> scalg_svd lib (dot (transpose_mat zo) zc) = Some (U, sv, Vh)
    \<and> gv (snd (balfreq lib kv_low kv_high wv_low wv_high self)) = Some sv
    \<and> T (snd (balfreq lib kv_low kv_high wv_low wv_high self)) = Some (balancing_T zc sv Vh)
    \<and> SSb (snd (balfreq lib kv_low kv_high wv_low wv_high self)) = Some r
    \<and> ssb_A r = fl_dot (balancing_Ti zo sv U) (fl_dot (fl_mat (ss_A s)) (balancing_T zc sv Vh))
    \<and> ssb_B r = fl_dot (balancing_Ti zo sv U) (fl_mat (ss_B s))
    \<and> ssb_C r = fl_dot (fl_mat (ss_C s)) (balancing_T zc sv Vh)
    \<and> ssb_D r = ss_D s \<and> ssb_dt r = ss_dt s
    \<and> nrows (ssb_A r) = ncols U \<and> ncols (ssb_A r) = nrows Vh
    \<and> SS (snd (balfreq lib kv_low kv_high wv_low wv_high self)) = SS self"
proof -
  obtain s zc zo where s: "SS self = Some s"
    and b: "balfreq lib kv_low kv_high wv_low wv_high self = balfreq_project lib s zc zo self"
    using balfreq_completes[OF assms] by blast
  have "fst (balfreq_project lib s zc zo self) = None"
    using assms b by simp
  then obtain U sv Vh where d: "scalg_svd lib (dot (transpose_mat zo) zc) = Some (U, sv, Vh)"
    and p: "snd (balfreq_project lib s zc zo self)
        = self \<lparr> Zc := Some zc, Zo := Some zo,
                 SSb := Some \<lparr> ssb_A = fl_dot (balancing_Ti zo sv U)
                                          (fl_dot (fl_mat (ss_A s)) (balancing_T zc sv Vh)),
                               ssb_B = fl_dot (balancing_Ti zo sv U) (fl_mat (ss_B s)),
                               ssb_C = fl_dot (fl_mat (ss_C s)) (balancing_T zc sv Vh),
                               ssb_D = ss_D s, ssb_dt = ss_dt s \<rparr>,
                 T := Some (balancing_T zc sv Vh), gv := Some sv \<rparr>"
    using balfreq_project_ok by blast
  have sh: "nrows (fl_dot (balancing_Ti zo sv U) (fl_dot (fl_mat (ss_A s)) (balancing_T zc sv Vh)))
              = ncols U"
    "ncols (fl_dot (balancing_Ti zo sv U) (fl_dot (fl_mat (ss_A s)) (balancing_T zc sv Vh)))
              = nrows Vh"
    by (simp_all add: fl_dot_def balancing_Ti_shape balancing_T_shape)
  show ?thesis
    using s d sh by (simp add: b p)
qed

text \<open>The small lattice, assembled dense at second order, with the one frequency zero:
  the input matrix vanishes, so the factors multiply to the zero matrix with 24 rows and
  72 columns. All its 24 singular values, zero, are in \<open>gv\<close>; the balanced model has
  24 states (the full model has 4), and its entries are not finite.\<close>

theorem balfreq_reduced_model_witness:
  "fst (balfreq ex_linalg [0] [] (Some [1]) (Some [])
          (assemble_ss ex_lu_solve ex_blocks (ex_dense 2))) = None
   \<and> gv (snd (balfreq ex_linalg [0] [] (Some [1]) (Some [])
          (assemble_ss ex_lu_solve ex_blocks (ex_dense 2)))) = Some (Vec 24 (\<lambda>i. 0))
   \<and> T (snd (balfreq ex_linalg [0] [] (Some [1]) (Some [])
          (assemble_ss ex_lu_solve ex_blocks (ex_dense 2)))) = Some (Mat 4 24 (\<lambda>i j. NonFinite))
   \<and> map_option ssb_A (SSb (snd (balfreq ex_linalg [0] [] (Some [1]) (Some [])
          (assemble_ss ex_lu_solve ex_blocks (ex_dense 2)))))
       = Some (Mat 24 24 (\<lambda>i j. NonFinite))
   \<and> map_option ssb_D (SSb (snd (balfreq ex_linalg [0] [] (Some [1]) (Some [])
          (assemble_ss ex_lu_solve ex_blocks (ex_dense 2)))))
       = map_option ss_D (SS (assemble_ss ex_lu_solve ex_blocks (ex_dense 2)))"
proof -
  let ?m = "assemble_ss ex_lu_solve ex_blocks (ex_dense 2)"
  let ?r = "balfreq ex_linalg [0] [] (Some [1]) (Some []) ?m"
  have f0: "MS (ex_dense 2) = ex_MS" "K (ex_dense 2) = 1"
    "K_star (ex_dense 2) = 1" "integr_order (ex_dense 2) = 2"
    "\<not> remove_predictor (ex_dense 2)" "\<not> use_sparse (ex_dense 2)"
    "Nx (ex_dense 2) = 4" "Nu (ex_dense 2) = 36" "Ny (ex_dense 2) = 12"
    by (simp_all add: ex_dense_def ex_model_def)
  have f: "MS ?m = ex_MS" "K ?m = 1" "K_star ?m = 1" "integr_order ?m = 2" "\<not> remove_predictor ?m"
    "\<not> use_sparse ?m"
    by (simp_all add: assemble_ss_fields assemble_ss_frame f0)
  obtain s where s: "SS ?m = Some s"
    and sh: "nrows (ss_A s) = 4" "ncols (ss_A s) = 4" "nrows (ss_B s) = 4" "ncols (ss_B s) = 36"
      "nrows (ss_C s) = 12"
    using assemble_ss_shapes[of ex_lu_solve ex_blocks "ex_dense 2"] by (auto simp add: f0)
  have a: "ss_A s = assemble_A ex_lu_solve ex_blocks (ex_dense 2)"
    by (rule assemble_ss_A[OF s])
  have "ss_B s = assemble_B ex_lu_solve ex_blocks (ex_dense 2)"
    using s assemble_ss_direct[OF f0(5), of ex_lu_solve ex_blocks] by auto
  then have bz: "elem (ss_B s) i j = 0" for i j
    by (simp add: ex_B_zero)
  have n: "states s = 4" "inputs s = 36" "outputs s = 12"
    by (simp_all add: states_def inputs_def outputs_def sh)
  obtain q zc zo where st: "balfreq_step ex_linalg ?m s [1] [1 * ss_dt s] 1 0
        (zeros 4 12, zeros 4 72, zeros 4 24) = Inr (q, zc, zo)"
    using ex_step_order2[where ?self0.0 = "ex_dense 2" and self = ?m and s = s
        and wv = "[1 * ss_dt s]" and ?st0.0 = "(zeros 4 12, zeros 4 72, zeros 4 24)"]
    by (auto simp add: f f0 a)
  have zsh: "nrows zc = 4" "ncols zc = 72" "nrows zo = 4" "ncols zo = 24"
    using balfreq_step_shapes[OF st] by simp_all
  have zz: "elem zc i j = 0" for i j
    by (rule balfreq_step_Zc_zero[OF st]) (simp_all add: bz)
  have b: "?r = balfreq_project ex_linalg s zc zo ?m"
    using st by (simp add: balfreq_def Let_def f s n one_complex.code)
  have d: "scalg_svd ex_linalg (dot (transpose_mat zo) zc)
             = Some (Mat 24 24 (\<lambda>i j. if i = j then 1 else 0), Vec 24 (\<lambda>i. 0),
                     Mat 24 72 (\<lambda>i j. if i = j then 1 else 0))"
    using zero_svd_zero[of "dot (transpose_mat zo) zc"] zsh
    by (simp add: ex_linalg_def dot_zero_right zz transpose_mat_def)
  have c: "fst ?r = None"
    by (simp add: b balfreq_project_def d Let_def)
  obtain s' zc' zo' U sv Vh r where t: "SS ?m = Some s'" "Zc (snd ?r) = Some zc'"
    "Zo (snd ?r) = Some zo'" "scalg_svd ex_linalg (dot (transpose_mat zo') zc') = Some (U, sv, Vh)"
    "gv (snd ?r) = Some sv" "T (snd ?r) = Some (balancing_T zc' sv Vh)" "SSb (snd ?r) = Some r"
    "ssb_A r = fl_dot (balancing_Ti zo' sv U) (fl_dot (fl_mat (ss_A s')) (balancing_T zc' sv Vh))"
    "ssb_D r = ss_D s'"
    using balfreq_reduced_model[OF c] by blast
  have p: "Zc (snd ?r) = Some zc" "Zo (snd ?r) = Some zo"
    by (simp_all add: b balfreq_project_def d Let_def)
  have e: "s' = s" "zc' = zc" "zo' = zo"
    using t(1,2,3) s p by simp_all
  have u: "U = Mat 24 24 (\<lambda>i j. if i = j then 1 else 0)" "sv = Vec 24 (\<lambda>i. 0)"
    "Vh = Mat 24 72 (\<lambda>i j. if i = j then 1 else 0)"
    using t(4) d by (simp_all add: e)
  have tm: "balancing_T zc sv Vh = Mat 4 24 (\<lambda>i j. NonFinite)"
    unfolding u by (simp add: balancing_T_zero zsh)
  have "ssb_A r = Mat 24 24 (\<lambda>i j. NonFinite)"
    unfolding t(8) e tm
    by (simp add: fl_dot_NonFinite fl_mat_def sh balancing_Ti_shape zsh u)
  then show ?thesis
    using c t(5,6,7,9) s tm by (simp add: e u)
qed

text \<open>C7. On a model assembled with the predictor removed, \<open>balfreq\<close> raises a
  \<^verbatim>\<open>NameError\<close> whatever the frequencies, the weights and the numerical routines are (the
  one about the weights when a weight vector is omitted, since that is checked first, the
  one about the predictor otherwise), and the model is left as it was.\<close>

theorem balfreq_predictor_removed:
  "balfreq lib kv_low kv_high wv_low wv_high (assemble_ss lu bl (self \<lparr> remove_predictor := True \<rparr>))
     = (Some (NameError (if wv_low = None \<or> wv_high = None
                         then ''Automatic weights under development''
                         else ''Case without predictor Not yet implemented!'')),
        assemble_ss lu bl (self \<lparr> remove_predictor := True \<rparr>))"
proof (cases "wv_low = None \<or> wv_high = None")
  case True
  then show ?thesis
    using balfreq_guards(1)[OF True] by simp
next
  case False
  have "remove_predictor (assemble_ss lu bl (self \<lparr> remove_predictor := True \<rparr>))"
    by (simp add: assemble_ss_frame)
  then show ?thesis
    using False balfreq_guards(2) by simp
qed

text \<open>C9. On a first-order model with the predictor kept and a nonempty frequency grid,
  \<open>balfreq\<close> never completes and leaves the model as it was. When the model is assembled
  with dense matrices, the weights are given, and the wake operator and the inverse of
  the kernel exist at the first frequency, the exception is the unbound name \<open>bp0\<close>. With
  a nonempty grid \<open>balfreq\<close> completes only on second-order models.\<close>

theorem balfreq_first_order:
  assumes "integr_order self = 1" "\<not> remove_predictor self" "SS self = Some s"
    and "kv_low @ kv_high = k0 # ks"
  shows "fst (balfreq lib kv_low kv_high wv_low wv_high self) \<noteq> None
     \<and> snd (balfreq lib kv_low kv_high wv_low wv_high self) = self
     \<and> (\<forall>wl wh Cw Kern.
           \<not> use_sparse self
         \<and> wv_low = Some wl \<and> wv_high = Some wh \<and> wl @ wh \<noteq> []
         \<and> get_Cw_cpx (MS self) (K self) (K_star self)
               (Complex (cos (k0 * ss_dt s)) (sin (k0 * ss_dt s))) = Inr Cw
         \<and> linalg_inv lib (balfreq_kernel self s Cw
               (Complex (cos (k0 * ss_dt s)) (sin (k0 * ss_dt s)))) = Some Kern
         \<longrightarrow> balfreq lib kv_low kv_high wv_low wv_high self
               = (Some (NameError ''name bp0 is not defined''), self))
     \<and> (\<forall>other. fst (balfreq lib kv_low kv_high wv_low wv_high other) = None
           \<longrightarrow> integr_order other = 2)"
proof -
  have ne: "kv_low @ kv_high \<noteq> []"
    using assms(4) by simp
  have "integr_order self \<noteq> 2"
    using assms(1) by simp
  then have a: "fst (balfreq lib kv_low kv_high wv_low wv_high self) \<noteq> None
     \<and> snd (balfreq lib kv_low kv_high wv_low wv_high self) = self"
    using balfreq_not_order2 ne by blast
  have b: "balfreq lib kv_low kv_high wv_low wv_high self
               = (Some (NameError ''name bp0 is not defined''), self)"
    if "\<not> use_sparse self" "wv_low = Some wl" "wv_high = Some wh" "wl @ wh \<noteq> []"
      "get_Cw_cpx (MS self) (K self) (K_star self)
               (Complex (cos (k0 * ss_dt s)) (sin (k0 * ss_dt s))) = Inr Cw"
      "linalg_inv lib (balfreq_kernel self s Cw
               (Complex (cos (k0 * ss_dt s)) (sin (k0 * ss_dt s)))) = Some Kern"
    for wl wh Cw Kern
    using balfreq_order1[OF assms(1) that(1) assms(2,3) that(2,3,4) assms(4) that(5,6)] .
  have c: "integr_order other = 2"
    if "fst (balfreq lib kv_low kv_high wv_low wv_high other) = None" for other
    using balfreq_not_order2[OF _ ne, of other lib wv_low wv_high] that by blast
  show ?thesis
    using a b c by blast
qed

theorem balfreq_first_order_witness:
  "integr_order (assemble_ss ex_lu_solve ex_blocks (ex_dense 1)) = 1
   \<and> \<not> remove_predictor (assemble_ss ex_lu_solve ex_blocks (ex_dense 1))
   \<and> \<not> use_sparse (assemble_ss ex_lu_solve ex_blocks (ex_dense 1))
   \<and> SS (assemble_ss ex_lu_solve ex_blocks (ex_dense 1)) \<noteq> None
   \<and> balfreq ex_linalg [0] [] (Some [1]) (Some [])
        (assemble_ss ex_lu_solve ex_blocks (ex_dense 1))
       = (Some (NameError ''name bp0 is not defined''),
          assemble_ss ex_lu_solve ex_blocks (ex_dense 1))
   \<and> fst (balfreq ex_linalg [0] [] None None
        (assemble_ss ex_lu_solve ex_blocks (ex_dense 1))) \<noteq> None"
proof -
  let ?m = "assemble_ss ex_lu_solve ex_blocks (ex_dense 1)"
  obtain s where s: "SS ?m = Some s"
    using assemble_ss_SS by blast
  have a: "ss_A s = assemble_A ex_lu_solve ex_blocks (ex_dense 1)"
    by (rule assemble_ss_A[OF s])
  have f0: "MS (ex_dense 1) = ex_MS" "K (ex_dense 1) = 1"
    "K_star (ex_dense 1) = 1" "integr_order (ex_dense 1) = 1"
    "\<not> remove_predictor (ex_dense 1)" "\<not> use_sparse (ex_dense 1)"
    by (simp_all add: ex_dense_def ex_model_def)
  have f: "MS ?m = ex_MS" "K ?m = 1" "K_star ?m = 1" "integr_order ?m = 1" "\<not> remove_predictor ?m"
    "\<not> use_sparse ?m"
    by (simp_all add: assemble_ss_fields assemble_ss_frame f0)
  let ?z = "Complex (cos (0 * ss_dt s)) (sin (0 * ss_dt s))"
  let ?Cw = "Mat 1 1 (\<lambda>i j. if i = 0 \<and> j = 0 then inverse ?z else 0) :: complex mat"
  have cw: "get_Cw_cpx (MS ?m) (K ?m) (K_star ?m) ?z = Inr ?Cw"
    by (simp only: f One_nat_def ex_Cw)
  have "elem (balfreq_kernel ?m s ?Cw ?z) 0 0 = ?z + 1"
    by (rule ex_kernel[where ?self0.0 = "ex_dense 1"]) (simp_all add: f f0 a)
  then have "elem (balfreq_kernel ?m s ?Cw ?z) 0 0 \<noteq> 0"
    by (simp add: complex_eq_iff)
  then obtain Kern where kn: "linalg_inv ex_linalg (balfreq_kernel ?m s ?Cw ?z) = Some Kern"
    by (simp add: ex_linalg_def)
  have g: "[0] @ [] = (0::real) # []" "[1] @ [] \<noteq> ([]::real list)"
    by simp_all
  note t = balfreq_first_order[OF f(4) f(5) s g(1), of ex_linalg "Some [1]" "Some []"]
  have "balfreq ex_linalg [0] [] (Some [1]) (Some []) ?m
          = (Some (NameError ''name bp0 is not defined''), ?m)"
    using t cw kn g(2) f(6) by blast
  moreover have "fst (balfreq ex_linalg [0] [] None None ?m) \<noteq> None"
    using balfreq_first_order[OF f(4) f(5) s g(1), of ex_linalg None None] by blast
  ultimately show ?thesis
    using f s by simp
qed

text \<open>The claim as stated promises the unbound-name error on every first-order model
  with the predictor kept. On the model that the constructor's default
  (\<^verbatim>\<open>UseSparse=True\<close>) assembles, the first pass raises \<^verbatim>\<open>TypeError\<close> before it reaches \<open>bp0\<close>;
  on a dense model whose kernel vanishes at the first frequency the inversion raises
  \<^verbatim>\<open>LinAlgError\<close>.\<close>

theorem balfreq_first_order_counterexample:
  "integr_order (assemble_ss ex_lu_solve ex_blocks (ex_model 1 False)) = 1
   \<and> \<not> remove_predictor (assemble_ss ex_lu_solve ex_blocks (ex_model 1 False))
   \<and> balfreq ex_linalg [0] [] (Some [1]) (Some [])
        (assemble_ss ex_lu_solve ex_blocks (ex_model 1 False))
       = (Some TypeError, assemble_ss ex_lu_solve ex_blocks (ex_model 1 False))
   \<and> integr_order (assemble_ss ex_lu_solve ex_blocks_singular (ex_dense 1)) = 1
   \<and> \<not> remove_predictor (assemble_ss ex_lu_solve ex_blocks_singular (ex_dense 1))
   \<and> balfreq ex_linalg [0] [] (Some [1]) (Some [])
        (assemble_ss ex_lu_solve ex_blocks_singular (ex_dense 1))
       = (Some LinAlgError, assemble_ss ex_lu_solve ex_blocks_singular (ex_dense 1))"
proof -
  let ?m = "assemble_ss ex_lu_solve ex_blocks (ex_model 1 False)"
  let ?n = "assemble_ss ex_lu_solve ex_blocks_singular (ex_dense 1)"
  have g: "[0] @ [] = (0::real) # []" "[1] @ [] \<noteq> ([]::real list)"
    by simp_all
  obtain s where s: "SS ?m = Some s"
    using assemble_ss_SS by blast
  have a: "ss_A s = assemble_A ex_lu_solve ex_blocks (ex_model 1 False)"
    by (rule assemble_ss_A[OF s])
  have f0: "MS (ex_model 1 False) = ex_MS" "K (ex_model 1 False) = 1"
    "K_star (ex_model 1 False) = 1" "integr_order (ex_model 1 False) = 1"
    "\<not> remove_predictor (ex_model 1 False)" "use_sparse (ex_model 1 False)"
    by (simp_all add: ex_model_def)
  have f: "MS ?m = ex_MS" "K ?m = 1" "K_star ?m = 1" "integr_order ?m = 1" "\<not> remove_predictor ?m"
    "use_sparse ?m"
    by (simp_all add: assemble_ss_fields assemble_ss_frame f0)
  let ?z = "Complex (cos (0 * ss_dt s)) (sin (0 * ss_dt s))"
  let ?Cw = "Mat 1 1 (\<lambda>i j. if i = 0 \<and> j = 0 then inverse ?z else 0) :: complex mat"
  have cw: "get_Cw_cpx (MS ?m) (K ?m) (K_star ?m) ?z = Inr ?Cw"
    by (simp only: f One_nat_def ex_Cw)
  have "elem (balfreq_kernel ?m s ?Cw ?z) 0 0 = ?z + 1"
    by (rule ex_kernel[where ?self0.0 = "ex_model 1 False"]) (simp_all add: f f0 a)
  then have "elem (balfreq_kernel ?m s ?Cw ?z) 0 0 \<noteq> 0"
    by (simp add: complex_eq_iff)
  then obtain Kern where kn: "linalg_inv ex_linalg (balfreq_kernel ?m s ?Cw ?z) = Some Kern"
    by (simp add: ex_linalg_def)
  have r1: "balfreq ex_linalg [0] [] (Some [1]) (Some []) ?m = (Some TypeError, ?m)"
    by (rule balfreq_sparse[OF f(6) f(5) s _ _ g(2) g(1) cw kn]) simp_all
  obtain s2 where s2: "SS ?n = Some s2"
    using assemble_ss_SS by blast
  have a2: "ss_A s2 = assemble_A ex_lu_solve ex_blocks_singular (ex_dense 1)"
    by (rule assemble_ss_A[OF s2])
  have h0: "MS (ex_dense 1) = ex_MS" "K (ex_dense 1) = 1"
    "K_star (ex_dense 1) = 1" "integr_order (ex_dense 1) = 1"
    "\<not> remove_predictor (ex_dense 1)"
    by (simp_all add: ex_dense_def ex_model_def)
  have h: "MS ?n = ex_MS" "K ?n = 1" "K_star ?n = 1" "integr_order ?n = 1" "\<not> remove_predictor ?n"
    by (simp_all add: assemble_ss_fields assemble_ss_frame h0)
  let ?z2 = "Complex (cos (0 * ss_dt s2)) (sin (0 * ss_dt s2))"
  let ?Cw2 = "Mat 1 1 (\<lambda>i j. if i = 0 \<and> j = 0 then inverse ?z2 else 0) :: complex mat"
  have cw2: "get_Cw_cpx (MS ?n) (K ?n) (K_star ?n) ?z2 = Inr ?Cw2"
    by (simp only: h One_nat_def ex_Cw)
  have "elem (balfreq_kernel ?n s2 ?Cw2 ?z2) 0 0 = ?z2 - 1"
    by (rule ex_kernel_singular[where ?self0.0 = "ex_dense 1"]) (simp_all add: h h0 a2)
  then have "elem (balfreq_kernel ?n s2 ?Cw2 ?z2) 0 0 = 0"
    by (simp add: complex_eq_iff)
  then have kn2: "linalg_inv ex_linalg (balfreq_kernel ?n s2 ?Cw2 ?z2) = None"
    by (simp add: ex_linalg_def)
  have r2: "balfreq ex_linalg [0] [] (Some [1]) (Some []) ?n = (Some LinAlgError, ?n)"
    by (rule balfreq_singular[OF h(5) s2 _ _ g(2) g(1) cw2 kn2]) simp_all
  show ?thesis
    using r1 r2 f h by simp
qed

section \<open>The wake operator\<close>

lemma py_range_map: "py_range a (a + int n) = map (\<lambda>i. a + int i) [0..<n]"
proof (induction n)
  case 0
  show ?case by (simp add: py_range_def)
next
  case (Suc n)
  have "[a..a + int n] = [a..a + int n - 1] @ [a + int n]"
    by (rule upto_rec2) simp
  then show ?case
    using Suc by (simp add: py_range_def)
qed

lemma wake_rows_triplets_Cons:
  "wake_rows_triplets z k0 k0s M N (mm # mms) =
     map (\<lambda>n. (k0s + int mm * int N + int n, k0 + int N * (int M - 1) + int n,
                z powi (- int mm - 1))) [0..<N]
     @ wake_rows_triplets z k0 k0s M N mms"
  by (simp add: wake_rows_triplets_def)

lemma Cw_wake_rows_triplets:
  "Cw_wake_rows z k0 k0s M N mms (jj, ii, vv) =
     (jj @ map (\<lambda>t. fst (snd t)) (wake_rows_triplets z k0 k0s M N mms),
      ii @ map fst (wake_rows_triplets z k0 k0s M N mms),
      vv @ map (\<lambda>t. snd (snd t)) (wake_rows_triplets z k0 k0s M N mms))"
proof (induction mms arbitrary: jj ii vv)
  case Nil
  show ?case by (simp add: wake_rows_triplets_def)
next
  case (Cons mm mms)
  have c: "py_range (k0 + int N * (int M - 1)) (k0 + int N * int M)
             = map (\<lambda>n. k0 + int N * (int M - 1) + int n) [0..<N]"
    using py_range_map[of "k0 + int N * (int M - 1)" N] by (simp add: algebra_simps)
  have r: "py_range (k0s + int mm * int N) (k0s + (int mm + 1) * int N)
             = map (\<lambda>n. k0s + int mm * int N + int n) [0..<N]"
    using py_range_map[of "k0s + int mm * int N" N] by (simp add: algebra_simps)
  have v: "replicate N (z powi (- int mm - 1)) = map (\<lambda>n. z powi (- int mm - 1)) [0..<N]"
    by (simp add: map_replicate_const)
  show ?case
    by (simp only: Cw_wake_rows.simps Cons.IH c r v wake_rows_triplets_Cons)
       (simp add: comp_def)
qed

lemma Cw_surfaces_triplets:
  assumes "\<forall>ss\<in>set sss. ss < length (dimensions ms) \<and> ss < length (dimensions_star ms)
             \<and> ss < length (KK ms) \<and> ss < length (KK_star ms)"
  shows "Cw_surfaces ms z sss (k0, k0s, (jj, ii, vv)) =
     Inr (jj @ map (\<lambda>t. fst (snd t)) (surfaces_triplets ms z sss k0 k0s),
          ii @ map fst (surfaces_triplets ms z sss k0 k0s),
          vv @ map (\<lambda>t. snd (snd t)) (surfaces_triplets ms z sss k0 k0s))"
  using assms
proof (induction sss arbitrary: k0 k0s jj ii vv)
  case Nil
  show ?case by simp
next
  case (Cons ss sss)
  obtain M N where d: "dimensions ms ! ss = (M, N)" by (cases "dimensions ms ! ss")
  obtain Ms N' where ds: "dimensions_star ms ! ss = (Ms, N')" by (cases "dimensions_star ms ! ss")
  show ?case
    using Cons.prems
    by (simp add: d ds Cw_wake_rows_triplets Cons.IH)
qed

lemma zip_triplets:
  "zip (map fst ts) (zip (map (\<lambda>t. fst (snd t)) ts) (map (\<lambda>t. snd (snd t)) ts)) = ts"
  by (induction ts) auto

lemma map_upt_add:
  "map f [0..<a + b] = map f [0..<a] @ map (\<lambda>i. f (a + i)) [0..<b]"
  by (induction b) simp_all

lemma wake_rows_triplets_snoc:
  "wake_rows_triplets z k0 k0s M N (mms @ [mm]) =
     wake_rows_triplets z k0 k0s M N mms
     @ map (\<lambda>n. (k0s + int mm * int N + int n, k0 + int N * (int M - 1) + int n,
                  z powi (- int mm - 1))) [0..<N]"
  by (simp add: wake_rows_triplets_def)

lemma rows_wake:
  "map fst (wake_rows_triplets z k0 k0s M N [0..<Ms]) = map (\<lambda>i. k0s + int i) [0..<Ms * N]"
proof (induction Ms)
  case 0
  show ?case by (simp add: wake_rows_triplets_def)
next
  case (Suc Ms)
  have e: "Suc Ms * N = Ms * N + N" by simp
  have "map fst (wake_rows_triplets z k0 k0s M N [0..<Suc Ms])
          = map fst (wake_rows_triplets z k0 k0s M N [0..<Ms])
            @ map (\<lambda>n. k0s + int Ms * int N + int n) [0..<N]"
    by (simp add: wake_rows_triplets_snoc comp_def)
  also have "\<dots> = map (\<lambda>i. k0s + int i) [0..<Ms * N]
                    @ map (\<lambda>n. k0s + int (Ms * N + n)) [0..<N]"
    using Suc by (simp add: add.assoc)
  also have "\<dots> = map (\<lambda>i. k0s + int i) [0..<Ms * N + N]"
    by (rule map_upt_add[symmetric])
  finally show ?case
    by (simp only: e)
qed

lemma rows_surfaces:
  assumes "\<forall>ss\<in>set sss. KK_star ms ! ss
             = fst (dimensions_star ms ! ss) * snd (dimensions_star ms ! ss)"
  shows "map fst (surfaces_triplets ms z sss k0 k0s)
           = map (\<lambda>i. k0s + int i) [0..<sum_list (map (\<lambda>ss. KK_star ms ! ss) sss)]"
  using assms
proof (induction sss arbitrary: k0 k0s)
  case Nil
  show ?case by simp
next
  case (Cons ss sss)
  let ?a = "KK_star ms ! ss"
  let ?b = "sum_list (map (\<lambda>ss. KK_star ms ! ss) sss)"
  have a: "fst (dimensions_star ms ! ss) * snd (dimensions_star ms ! ss) = ?a"
    using Cons.prems by simp
  have h: "map fst (wake_rows_triplets z k0 k0s (fst (dimensions ms ! ss))
              (snd (dimensions_star ms ! ss)) [0..<fst (dimensions_star ms ! ss)])
             = map (\<lambda>i. k0s + int i) [0..<?a]"
    by (simp only: rows_wake a)
  have t: "map fst (surfaces_triplets ms z sss (k0 + int (KK ms ! ss)) (k0s + int ?a))
          = map (\<lambda>i. k0s + int (?a + i)) [0..<?b]"
    using Cons.IH[of "k0 + int (KK ms ! ss)" "k0s + int ?a"] Cons.prems
    by (simp add: add.assoc)
  have "map fst (surfaces_triplets ms z (ss # sss) k0 k0s)
          = map (\<lambda>i. k0s + int i) [0..<?a] @ map (\<lambda>i. k0s + int (?a + i)) [0..<?b]"
    by (simp only: surfaces_triplets.simps map_append h t)
  also have "\<dots> = map (\<lambda>i. k0s + int i) [0..<?a + ?b]"
    by (rule map_upt_add[symmetric])
  finally show ?case
    by simp
qed

lemma surfaces_triplets_append:
  "surfaces_triplets ms z (xs @ ys) k0 k0s =
     surfaces_triplets ms z xs k0 k0s
     @ surfaces_triplets ms z ys (k0 + int (sum_list (map (\<lambda>ss. KK ms ! ss) xs)))
         (k0s + int (sum_list (map (\<lambda>ss. KK_star ms ! ss) xs)))"
  by (induction xs arbitrary: k0 k0s) (simp_all add: add.assoc)

lemma sum_list_nth_upt:
  "n \<le> length xs \<Longrightarrow> sum_list (map (\<lambda>i. xs ! i) [0..<n]) = sum_list (take n (xs :: nat list))"
  by (induction n) (simp_all add: take_Suc_conv_app_nth)

lemma sum_list_take_Suc:
  "n < length xs \<Longrightarrow> sum_list (take (Suc n) xs) = sum_list (take n xs) + (xs ! n :: nat)"
  by (simp add: take_Suc_conv_app_nth)

lemma sum_list_take_le: "sum_list (take n xs) \<le> sum_list (xs :: nat list)"
proof -
  have "sum_list (take n xs @ drop n xs) = sum_list (take n xs) + sum_list (drop n xs)"
    by (rule sum_list_append)
  then show ?thesis by simp
qed

lemma surfaces_triplets_upt_Suc:
  assumes "b \<le> length (KK ms)" "b \<le> length (KK_star ms)"
  shows "surfaces_triplets ms z [0..<Suc b] 0 0 =
     surfaces_triplets ms z [0..<b] 0 0
     @ wake_rows_triplets z (int (K0tot_at ms b)) (int (K0totstar_at ms b))
         (fst (dimensions ms ! b)) (snd (dimensions_star ms ! b))
         [0..<fst (dimensions_star ms ! b)]"
proof -
  have "[0..<Suc b] = [0..<b] @ [b]" by simp
  then have "surfaces_triplets ms z [0..<Suc b] 0 0 =
     surfaces_triplets ms z [0..<b] 0 0
     @ surfaces_triplets ms z [b] (0 + int (sum_list (map (\<lambda>ss. KK ms ! ss) [0..<b])))
         (0 + int (sum_list (map (\<lambda>ss. KK_star ms ! ss) [0..<b])))"
    by (simp only: surfaces_triplets_append)
  then show ?thesis
    using assms by (simp add: sum_list_nth_upt K0tot_at_def K0totstar_at_def del: upt_Suc)
qed

lemma set_wake_rows_intro:
  assumes "mm < Ms" "n < N"
  shows "(k0s + int mm * int N + int n, k0 + int N * (int M - 1) + int n, z powi (- int mm - 1))
           \<in> set (wake_rows_triplets z k0 k0s M N [0..<Ms])"
proof -
  let ?g = "\<lambda>mm n. (k0s + int mm * int N + int n, k0 + int N * (int M - 1) + int n,
                     z powi (- int mm - 1))"
  have n: "n \<in> set [0..<N]" and m: "mm \<in> set [0..<Ms]"
    using assms by simp_all
  have a: "?g mm n \<in> set (map (?g mm) [0..<N])"
    unfolding set_map using refl n by (rule image_eqI)
  have b: "map (?g mm) [0..<N] \<in> set (map (\<lambda>mm. map (?g mm) [0..<N]) [0..<Ms])"
    unfolding set_map using refl m by (rule image_eqI)
  show ?thesis
    unfolding wake_rows_triplets_def set_concat
    using b a by (rule UN_I)
qed

lemma set_wake_rows_elim:
  assumes "t \<in> set (wake_rows_triplets z k0 k0s M N [0..<Ms])"
  shows "\<exists>mm n. mm < Ms \<and> n < N
        \<and> t = (k0s + int mm * int N + int n, k0 + int N * (int M - 1) + int n,
               z powi (- int mm - 1))"
  using assms by (auto simp add: wake_rows_triplets_def)

lemma set_surfaces_intro:
  assumes "b \<le> length (KK ms)" "b \<le> length (KK_star ms)"
    and "ss < b" "mm < fst (dimensions_star ms ! ss)" "n < snd (dimensions_star ms ! ss)"
  shows "(int (K0totstar_at ms ss) + int mm * int (snd (dimensions_star ms ! ss)) + int n,
          int (K0tot_at ms ss)
            + int (snd (dimensions_star ms ! ss)) * (int (fst (dimensions ms ! ss)) - 1) + int n,
          z powi (- int mm - 1))
           \<in> set (surfaces_triplets ms z [0..<b] 0 0)"
  using assms(1,2,3)
proof (induction b)
  case 0
  then show ?case by simp
next
  case (Suc b)
  have sp: "surfaces_triplets ms z [0..<Suc b] 0 0 =
     surfaces_triplets ms z [0..<b] 0 0
     @ wake_rows_triplets z (int (K0tot_at ms b)) (int (K0totstar_at ms b))
         (fst (dimensions ms ! b)) (snd (dimensions_star ms ! b))
         [0..<fst (dimensions_star ms ! b)]"
    using Suc.prems by (intro surfaces_triplets_upt_Suc) simp_all
  show ?case
  proof (cases "ss < b")
    case True
    then have "(int (K0totstar_at ms ss) + int mm * int (snd (dimensions_star ms ! ss)) + int n,
          int (K0tot_at ms ss)
            + int (snd (dimensions_star ms ! ss)) * (int (fst (dimensions ms ! ss)) - 1) + int n,
          z powi (- int mm - 1))
           \<in> set (surfaces_triplets ms z [0..<b] 0 0)"
      using Suc.IH Suc.prems by simp
    then show ?thesis
      unfolding sp set_append by (rule UnI1)
  next
    case False
    then have e: "ss = b" using Suc.prems by simp
    have "(int (K0totstar_at ms b) + int mm * int (snd (dimensions_star ms ! b)) + int n,
          int (K0tot_at ms b)
            + int (snd (dimensions_star ms ! b)) * (int (fst (dimensions ms ! b)) - 1) + int n,
          z powi (- int mm - 1))
           \<in> set (wake_rows_triplets z (int (K0tot_at ms b)) (int (K0totstar_at ms b))
                  (fst (dimensions ms ! b)) (snd (dimensions_star ms ! b))
                  [0..<fst (dimensions_star ms ! b)])"
      using assms(4,5) unfolding e by (rule set_wake_rows_intro)
    then show ?thesis
      unfolding sp set_append e by (rule UnI2)
  qed
qed

lemma set_surfaces_elim:
  assumes "b \<le> length (KK ms)" "b \<le> length (KK_star ms)"
    and "t \<in> set (surfaces_triplets ms z [0..<b] 0 0)"
  shows "\<exists>ss mm n. ss < b \<and> mm < fst (dimensions_star ms ! ss)
        \<and> n < snd (dimensions_star ms ! ss)
        \<and> t = (int (K0totstar_at ms ss) + int mm * int (snd (dimensions_star ms ! ss)) + int n,
               int (K0tot_at ms ss)
                 + int (snd (dimensions_star ms ! ss)) * (int (fst (dimensions ms ! ss)) - 1)
                 + int n,
               z powi (- int mm - 1))"
  using assms
proof (induction b)
  case 0
  then show ?case by simp
next
  case (Suc b)
  have sp: "surfaces_triplets ms z [0..<Suc b] 0 0 =
     surfaces_triplets ms z [0..<b] 0 0
     @ wake_rows_triplets z (int (K0tot_at ms b)) (int (K0totstar_at ms b))
         (fst (dimensions ms ! b)) (snd (dimensions_star ms ! b))
         [0..<fst (dimensions_star ms ! b)]"
    using Suc.prems by (intro surfaces_triplets_upt_Suc) simp_all
  from Suc.prems(3) have "t \<in> set (surfaces_triplets ms z [0..<b] 0 0)
     \<or> t \<in> set (wake_rows_triplets z (int (K0tot_at ms b)) (int (K0totstar_at ms b))
         (fst (dimensions ms ! b)) (snd (dimensions_star ms ! b))
         [0..<fst (dimensions_star ms ! b)])"
    unfolding sp set_append Un_iff .
  then show ?case
  proof
    assume "t \<in> set (surfaces_triplets ms z [0..<b] 0 0)"
    then obtain ss mm n where "ss < b" "mm < fst (dimensions_star ms ! ss)"
      "n < snd (dimensions_star ms ! ss)"
      "t = (int (K0totstar_at ms ss) + int mm * int (snd (dimensions_star ms ! ss)) + int n,
               int (K0tot_at ms ss)
                 + int (snd (dimensions_star ms ! ss)) * (int (fst (dimensions ms ! ss)) - 1)
                 + int n,
               z powi (- int mm - 1))"
      using Suc.IH Suc.prems(1,2) by fastforce
    then show ?thesis
      using less_Suc_eq by blast
  next
    assume "t \<in> set (wake_rows_triplets z (int (K0tot_at ms b)) (int (K0totstar_at ms b))
         (fst (dimensions ms ! b)) (snd (dimensions_star ms ! b))
         [0..<fst (dimensions_star ms ! b)])"
    then obtain mm n where "mm < fst (dimensions_star ms ! b)" "n < snd (dimensions_star ms ! b)"
      "t = (int (K0totstar_at ms b) + int mm * int (snd (dimensions_star ms ! b)) + int n,
            int (K0tot_at ms b)
              + int (snd (dimensions_star ms ! b)) * (int (fst (dimensions ms ! b)) - 1) + int n,
            z powi (- int mm - 1))"
      using set_wake_rows_elim by blast
    then show ?thesis
      using lessI by blast
  qed
qed

lemma sizes_okD:
  assumes "lattice_sizes_ok ms k ks"
  shows "length (dimensions ms) = n_surf ms" "length (dimensions_star ms) = n_surf ms"
    "length (KK ms) = n_surf ms" "length (KK_star ms) = n_surf ms"
    "k = sum_list (KK ms)" "ks = sum_list (KK_star ms)"
    "ss < n_surf ms \<Longrightarrow> 1 \<le> fst (dimensions ms ! ss)"
    "ss < n_surf ms \<Longrightarrow> snd (dimensions_star ms ! ss) = snd (dimensions ms ! ss)"
    "ss < n_surf ms \<Longrightarrow> KK ms ! ss = fst (dimensions ms ! ss) * snd (dimensions ms ! ss)"
    "ss < n_surf ms \<Longrightarrow>
       KK_star ms ! ss = fst (dimensions_star ms ! ss) * snd (dimensions_star ms ! ss)"
  using assms by (simp_all add: lattice_sizes_ok_def list_all_iff)

lemma K0tot_at_bound:
  assumes "lattice_sizes_ok ms k ks" "ss < n_surf ms"
  shows "K0tot_at ms ss + fst (dimensions ms ! ss) * snd (dimensions ms ! ss) \<le> k"
proof -
  have "K0tot_at ms (Suc ss) = K0tot_at ms ss + KK ms ! ss"
    unfolding K0tot_at_def using assms sizes_okD(3)[OF assms(1)]
    by (intro sum_list_take_Suc) simp
  moreover have "K0tot_at ms (Suc ss) \<le> k"
    unfolding K0tot_at_def sizes_okD(5)[OF assms(1)] by (rule sum_list_take_le)
  ultimately show ?thesis
    using sizes_okD(9)[OF assms] by simp
qed

lemma K0totstar_at_bound:
  assumes "lattice_sizes_ok ms k ks" "ss < n_surf ms"
  shows "K0totstar_at ms ss + fst (dimensions_star ms ! ss) * snd (dimensions_star ms ! ss) \<le> ks"
proof -
  have "K0totstar_at ms (Suc ss) = K0totstar_at ms ss + KK_star ms ! ss"
    unfolding K0totstar_at_def using assms sizes_okD(4)[OF assms(1)]
    by (intro sum_list_take_Suc) simp
  moreover have "K0totstar_at ms (Suc ss) \<le> ks"
    unfolding K0totstar_at_def sizes_okD(6)[OF assms(1)] by (rule sum_list_take_le)
  ultimately show ?thesis
    using sizes_okD(10)[OF assms] by simp
qed

lemma trailing_edge_int:
  assumes "lattice_sizes_ok ms k ks" "ss < n_surf ms"
  shows "int (K0tot_at ms ss)
           + int (snd (dimensions_star ms ! ss)) * (int (fst (dimensions ms ! ss)) - 1) + int n
         = int (trailing_edge_panel ms ss n)"
proof -
  have "int (fst (dimensions ms ! ss) - 1) = int (fst (dimensions ms ! ss)) - 1"
    using sizes_okD(7)[OF assms] by arith
  then show ?thesis
    by (simp only: trailing_edge_panel_def sizes_okD(8)[OF assms] of_nat_add of_nat_mult)
qed

lemma wake_panel_int:
  "int (K0totstar_at ms ss) + int mm * int (snd (dimensions_star ms ! ss)) + int n
     = int (wake_panel ms ss mm n)"
  by (simp add: wake_panel_def)

lemma trailing_edge_bound:
  assumes "lattice_sizes_ok ms k ks" "ss < n_surf ms" "n < snd (dimensions_star ms ! ss)"
  shows "trailing_edge_panel ms ss n < k"
proof -
  let ?M = "fst (dimensions ms ! ss)" and ?N = "snd (dimensions ms ! ss)"
  have n: "n < ?N" using assms(3) sizes_okD(8)[OF assms(1,2)] by simp
  have m: "1 \<le> ?M" by (rule sizes_okD(7)[OF assms(1,2)])
  obtain M' where M': "?M = Suc M'"
    using m by (cases ?M) simp_all
  have "?N * (?M - 1) + n < ?M * ?N"
    unfolding M' using n by (simp add: mult.commute)
  then show ?thesis
    using K0tot_at_bound[OF assms(1,2)] by (simp add: trailing_edge_panel_def)
qed

lemma wake_panel_bound:
  assumes "lattice_sizes_ok ms k ks" "ss < n_surf ms"
    and "mm < fst (dimensions_star ms ! ss)" "n < snd (dimensions_star ms ! ss)"
  shows "wake_panel ms ss mm n < ks"
proof -
  let ?M = "fst (dimensions_star ms ! ss)" and ?N = "snd (dimensions_star ms ! ss)"
  have "Suc mm * ?N \<le> ?M * ?N"
    using assms(3) by (intro mult_le_mono1) simp
  then have "mm * ?N + n < ?M * ?N"
    using assms(4) by simp
  then show ?thesis
    using K0totstar_at_bound[OF assms(1,2)] by (simp add: wake_panel_def)
qed

lemma sum_triplets_zero:
  "r \<notin> fst ` set ts \<Longrightarrow>
   sum_list (map (\<lambda>(i', j', v'). if i' = r \<and> j' = j then v' else (0::complex)) ts) = 0"
  by (induction ts) auto

lemma sum_triplets_unique:
  assumes "distinct (map fst ts)" "(r, c, v) \<in> set ts"
  shows "sum_list (map (\<lambda>(i', j', v'). if i' = r \<and> j' = j then v' else (0::complex)) ts)
           = (if j = c then v else 0)"
  using assms
proof (induction ts)
  case Nil
  then show ?case by simp
next
  case (Cons a ts)
  show ?case
  proof (cases "a = (r, c, v)")
    case True
    have "r \<notin> fst ` set ts"
      using Cons.prems(1) True by simp
    then have "sum_list (map (\<lambda>(i', j', v'). if i' = r \<and> j' = j then v' else (0::complex)) ts) = 0"
      by (rule sum_triplets_zero)
    then show ?thesis
      using True by simp
  next
    case False
    then have m: "(r, c, v) \<in> set ts"
      using Cons.prems(2) by simp
    then have "r \<in> fst ` set ts"
      by (rule rev_image_eqI) simp
    then have "fst a \<noteq> r"
      using Cons.prems(1) by auto
    moreover have "sum_list (map (\<lambda>(i', j', v'). if i' = r \<and> j' = j then v' else (0::complex)) ts)
           = (if j = c then v else 0)"
      using Cons.IH Cons.prems(1) m by simp
    ultimately show ?thesis
      by (cases a) simp
  qed
qed

lemma rows_all:
  assumes "lattice_sizes_ok ms k ks"
  shows "map fst (surfaces_triplets ms z [0..<n_surf ms] 0 0) = map int [0..<ks]"
proof -
  have "\<forall>ss\<in>set [0..<n_surf ms]. KK_star ms ! ss
             = fst (dimensions_star ms ! ss) * snd (dimensions_star ms ! ss)"
    using sizes_okD(10)[OF assms] by simp
  then have "map fst (surfaces_triplets ms z [0..<n_surf ms] 0 0)
      = map (\<lambda>i. 0 + int i) [0..<sum_list (map (\<lambda>ss. KK_star ms ! ss) [0..<n_surf ms])]"
    by (rule rows_surfaces)
  moreover have "sum_list (map (\<lambda>ss. KK_star ms ! ss) [0..<n_surf ms]) = ks"
    using sum_list_nth_upt[of "n_surf ms" "KK_star ms"] sizes_okD(4,6)[OF assms] by simp
  ultimately show ?thesis
    by simp
qed

lemma cols_all:
  assumes "lattice_sizes_ok ms k ks"
    and "t \<in> set (surfaces_triplets ms z [0..<n_surf ms] 0 0)"
  shows "0 \<le> fst (snd t) \<and> fst (snd t) < int k"
proof -
  obtain ss mm n where h: "ss < n_surf ms" "mm < fst (dimensions_star ms ! ss)"
      "n < snd (dimensions_star ms ! ss)"
      "t = (int (K0totstar_at ms ss) + int mm * int (snd (dimensions_star ms ! ss)) + int n,
               int (K0tot_at ms ss)
                 + int (snd (dimensions_star ms ! ss)) * (int (fst (dimensions ms ! ss)) - 1)
                 + int n,
               z powi (- int mm - 1))"
    using set_surfaces_elim[OF _ _ assms(2)] sizes_okD(3,4)[OF assms(1)] by force
  have "fst (snd t) = int (trailing_edge_panel ms ss n)"
    unfolding h(4) using trailing_edge_int[OF assms(1) h(1)] by simp
  then show ?thesis
    using trailing_edge_bound[OF assms(1) h(1,3)] by simp
qed

lemma get_Cw_cpx_triplets:
  assumes "lattice_sizes_ok ms k ks"
  shows "get_Cw_cpx ms k ks z =
     Inr (Mat ks k (\<lambda>i j.
       sum_list (map (\<lambda>(i', j', v). if i' = int i \<and> j' = int j then v else 0)
                  (surfaces_triplets ms z [0..<n_surf ms] 0 0))))"
proof -
  let ?T = "surfaces_triplets ms z [0..<n_surf ms] 0 0"
  have "\<forall>ss\<in>set [0..<n_surf ms]. ss < length (dimensions ms) \<and> ss < length (dimensions_star ms)
             \<and> ss < length (KK ms) \<and> ss < length (KK_star ms)"
    using sizes_okD(1-4)[OF assms] by simp
  then have s: "Cw_surfaces ms z [0..<n_surf ms] (0, 0, ([], [], [])) =
     Inr ([] @ map (\<lambda>t. fst (snd t)) ?T, [] @ map fst ?T, [] @ map (\<lambda>t. snd (snd t)) ?T)"
    by (rule Cw_surfaces_triplets)
  have r: "\<not> list_ex (\<lambda>i. i < 0 \<or> int ks \<le> i) (map fst ?T)"
    unfolding rows_all[OF assms] by (simp add: list_ex_iff)
  have c: "\<not> list_ex (\<lambda>j. j < 0 \<or> int k \<le> j) (map (\<lambda>t. fst (snd t)) ?T)"
    using cols_all[OF assms] by (fastforce simp add: list_ex_iff)
  show ?thesis
    using r c by (simp add: get_Cw_cpx_def s csc_matrix_def zip_triplets)
qed

lemma powi_neg_Suc: "z powi (- int mm - 1) = 1 / (z :: complex) ^ (mm + 1)"
proof -
  have e: "- int mm - 1 = - int (Suc mm)" by simp
  have "z powi (- int (Suc mm)) = inverse (z powi int (Suc mm))"
    by (rule power_int_minus)
  also have "\<dots> = inverse (z ^ Suc mm)"
    by (simp only: power_int_of_nat)
  also have "\<dots> = 1 / z ^ (mm + 1)"
    by (simp only: inverse_eq_divide Suc_eq_plus1)
  finally show ?thesis
    by (simp only: e)
qed

lemma Cw_row:
  assumes "lattice_sizes_ok ms k ks"
    and "ss < n_surf ms" "mm < fst (dimensions_star ms ! ss)" "n < snd (dimensions_star ms ! ss)"
  shows "sum_list (map (\<lambda>(i', j', v). if i' = int (wake_panel ms ss mm n) \<and> j' = int j
                                     then v else 0)
                   (surfaces_triplets ms z [0..<n_surf ms] 0 0))
           = (if j = trailing_edge_panel ms ss n then 1 / z ^ (mm + 1) else 0)"
proof -
  let ?T = "surfaces_triplets ms z [0..<n_surf ms] 0 0"
  have d: "distinct (map fst ?T)"
    unfolding rows_all[OF assms(1)] by (simp add: distinct_map inj_on_def)
  have "(int (K0totstar_at ms ss) + int mm * int (snd (dimensions_star ms ! ss)) + int n,
          int (K0tot_at ms ss)
            + int (snd (dimensions_star ms ! ss)) * (int (fst (dimensions ms ! ss)) - 1) + int n,
          z powi (- int mm - 1)) \<in> set ?T"
    using sizes_okD(3,4)[OF assms(1)] assms(2,3,4) by (intro set_surfaces_intro) simp_all
  then have m: "(int (wake_panel ms ss mm n), int (trailing_edge_panel ms ss n),
                 1 / z ^ (mm + 1)) \<in> set ?T"
    by (simp only: wake_panel_int trailing_edge_int[OF assms(1,2)] powi_neg_Suc)
  have "sum_list (map (\<lambda>(i', j', v). if i' = int (wake_panel ms ss mm n) \<and> j' = int j
                                     then v else 0) ?T)
          = (if int j = int (trailing_edge_panel ms ss n) then 1 / z ^ (mm + 1) else 0)"
    using d m by (rule sum_triplets_unique)
  then show ?thesis
    by simp
qed

lemma wake_panel_cover:
  assumes "lattice_sizes_ok ms k ks" "i < ks"
  shows "\<exists>ss mm n. ss < n_surf ms \<and> mm < fst (dimensions_star ms ! ss)
           \<and> n < snd (dimensions_star ms ! ss) \<and> i = wake_panel ms ss mm n"
proof -
  let ?T = "surfaces_triplets ms z [0..<n_surf ms] 0 0"
  have "int i \<in> set (map int [0..<ks])"
    using assms(2) by simp
  then have "int i \<in> set (map fst ?T)"
    by (simp only: rows_all[OF assms(1)])
  then obtain t where t: "t \<in> set ?T" "fst t = int i"
    by auto
  obtain ss mm n where h: "ss < n_surf ms" "mm < fst (dimensions_star ms ! ss)"
      "n < snd (dimensions_star ms ! ss)"
      "t = (int (K0totstar_at ms ss) + int mm * int (snd (dimensions_star ms ! ss)) + int n,
               int (K0tot_at ms ss)
                 + int (snd (dimensions_star ms ! ss)) * (int (fst (dimensions ms ! ss)) - 1)
                 + int n,
               z powi (- int mm - 1))"
    using set_surfaces_elim[OF _ _ t(1)] sizes_okD(3,4)[OF assms(1)] by force
  have "int i = int (wake_panel ms ss mm n)"
    using t(2) unfolding h(4) by (simp only: fst_conv wake_panel_int)
  then show ?thesis
    using h(1,2,3) by auto
qed

lemma dotv_single:
  assumes "c < ncols a" "\<And>j. elem a r j = (if j = c then v else 0)"
  shows "vat (dotv a g) r = v * vat g c"
proof -
  have "(\<Sum>j<ncols a. elem a r j * vat g j) = (\<Sum>j<ncols a. if j = c then v * vat g j else 0)"
    by (intro sum.cong) (simp_all add: assms(2))
  also have "\<dots> = v * vat g c"
    using assms(1) by (simp add: sum.delta)
  finally show ?thesis
    by (simp add: dotv_def sum_upto_sum)
qed

text \<open>C5. On a lattice whose counts fit its grids and for a nonzero \<open>z\<close>, \<open>get_Cw_cpx\<close>
  returns a \<open>K_star\<close> by \<open>K\<close> matrix. Every row is the wake panel \<open>(mm, n)\<close> of some surface;
  its entry in the column of the trailing-edge bound panel \<open>n\<close> of that surface is
  \<open>z^-(mm+1)\<close> and its other entries are zero, so that the product with a vector of bound
  circulations gives, at that wake panel, \<open>z^-(mm+1)\<close> times the circulation of the
  trailing-edge panel.\<close>

theorem wake_operator_entries:
  assumes "lattice_sizes_ok ms k ks" "z \<noteq> 0"
    and "ss < n_surf ms" "mm < fst (dimensions_star ms ! ss)" "n < snd (dimensions_star ms ! ss)"
  shows "\<exists>Cw. get_Cw_cpx ms k ks z = Inr Cw \<and> nrows Cw = ks \<and> ncols Cw = k
     \<and> wake_panel ms ss mm n < ks \<and> trailing_edge_panel ms ss n < k
     \<and> elem Cw (wake_panel ms ss mm n) (trailing_edge_panel ms ss n) = 1 / z ^ (mm + 1)
     \<and> (\<forall>j. j \<noteq> trailing_edge_panel ms ss n \<longrightarrow> elem Cw (wake_panel ms ss mm n) j = 0)
     \<and> (\<forall>g. vat (dotv Cw g) (wake_panel ms ss mm n)
              = 1 / z ^ (mm + 1) * vat g (trailing_edge_panel ms ss n))
     \<and> (\<forall>i. i < ks \<longrightarrow>
           (\<exists>ss' mm' n'. ss' < n_surf ms \<and> mm' < fst (dimensions_star ms ! ss')
              \<and> n' < snd (dimensions_star ms ! ss') \<and> i = wake_panel ms ss' mm' n'))"
proof -
  let ?Cw = "Mat ks k (\<lambda>i j.
       sum_list (map (\<lambda>(i', j', v). if i' = int i \<and> j' = int j then v else 0)
                  (surfaces_triplets ms z [0..<n_surf ms] 0 0)))"
  have g: "get_Cw_cpx ms k ks z = Inr ?Cw"
    by (rule get_Cw_cpx_triplets[OF assms(1)])
  have e: "elem ?Cw (wake_panel ms ss mm n) j
             = (if j = trailing_edge_panel ms ss n then 1 / z ^ (mm + 1) else 0)" for j
    using Cw_row[OF assms(1,3,4,5), where z = z and j = j] by simp
  have c: "trailing_edge_panel ms ss n < ncols ?Cw"
    using trailing_edge_bound[OF assms(1,3,5)] by simp
  have d: "vat (dotv ?Cw g) (wake_panel ms ss mm n)
             = 1 / z ^ (mm + 1) * vat g (trailing_edge_panel ms ss n)" for g
    using c e by (rule dotv_single)
  have cov: "\<exists>ss' mm' n'. ss' < n_surf ms \<and> mm' < fst (dimensions_star ms ! ss')
              \<and> n' < snd (dimensions_star ms ! ss') \<and> i = wake_panel ms ss' mm' n'"
    if "i < ks" for i
    using wake_panel_cover[OF assms(1) that] .
  have "nrows ?Cw = ks \<and> ncols ?Cw = k
     \<and> wake_panel ms ss mm n < ks \<and> trailing_edge_panel ms ss n < k
     \<and> elem ?Cw (wake_panel ms ss mm n) (trailing_edge_panel ms ss n) = 1 / z ^ (mm + 1)
     \<and> (\<forall>j. j \<noteq> trailing_edge_panel ms ss n \<longrightarrow> elem ?Cw (wake_panel ms ss mm n) j = 0)
     \<and> (\<forall>g. vat (dotv ?Cw g) (wake_panel ms ss mm n)
              = 1 / z ^ (mm + 1) * vat g (trailing_edge_panel ms ss n))
     \<and> (\<forall>i. i < ks \<longrightarrow>
           (\<exists>ss' mm' n'. ss' < n_surf ms \<and> mm' < fst (dimensions_star ms ! ss')
              \<and> n' < snd (dimensions_star ms ! ss') \<and> i = wake_panel ms ss' mm' n'))"
    using e d cov wake_panel_bound[OF assms(1,3,4,5)] trailing_edge_bound[OF assms(1,3,5)]
    by simp
  then show ?thesis
    using g by blast
qed

theorem wake_operator_entries_witness:
  "lattice_sizes_ok ex_MS2 7 12 \<and> wake_panel ex_MS2 1 1 2 = 11
   \<and> trailing_edge_panel ex_MS2 1 2 = 6
   \<and> (\<exists>Cw. get_Cw_cpx ex_MS2 7 12 2 = Inr Cw \<and> nrows Cw = 12 \<and> ncols Cw = 7
          \<and> elem Cw 11 6 = 1 / 4 \<and> elem Cw 11 0 = 0
          \<and> vat (dotv Cw (Vec 7 (\<lambda>j. of_nat j))) 11 = 3 / 2)"
proof -
  have ok: "lattice_sizes_ok ex_MS2 7 12"
    by code_simp
  have w: "wake_panel ex_MS2 1 1 2 = 11" and t: "trailing_edge_panel ex_MS2 1 2 = 6"
    by code_simp+
  have h: "1 < n_surf ex_MS2" "1 < fst (dimensions_star ex_MS2 ! 1)"
    "2 < snd (dimensions_star ex_MS2 ! 1)"
    by code_simp+
  have z: "(2::complex) \<noteq> 0"
    by simp
  obtain Cw where c: "get_Cw_cpx ex_MS2 7 12 2 = Inr Cw" "nrows Cw = 12" "ncols Cw = 7"
    "elem Cw (wake_panel ex_MS2 1 1 2) (trailing_edge_panel ex_MS2 1 2) = 1 / 2 ^ (1 + 1)"
    "\<forall>j. j \<noteq> trailing_edge_panel ex_MS2 1 2 \<longrightarrow> elem Cw (wake_panel ex_MS2 1 1 2) j = 0"
    "\<forall>g. vat (dotv Cw g) (wake_panel ex_MS2 1 1 2)
              = 1 / 2 ^ (1 + 1) * vat g (trailing_edge_panel ex_MS2 1 2)"
    using wake_operator_entries[OF ok z h] by blast
  have "elem Cw 11 6 = 1 / 4" "elem Cw 11 0 = 0"
    "vat (dotv Cw (Vec 7 (\<lambda>j. of_nat j))) 11 = 3 / 2"
    using c(4,5) c(6)[rule_format, of "Vec 7 (\<lambda>j. of_nat j)"] unfolding w t by simp_all
  then show ?thesis
    using ok w t c(1,2,3) by blast
qed

end
